theory Spec2Isabelle
  imports Complex_Main
begin

section \<open>Temporal-difference update rules of \<^verbatim>\<open>mushroom/algorithms/value/td.py\<close>\<close>

text \<open>
  The update rules are embedded as functions from the agent's state (a record of its
  attributes) and one transition to either an exception or the agent's next state; the
  state that an exception leaves behind is not part of the result. Numbers are real
  numbers: the arithmetic of the source is the arithmetic of the reals, without rounding,
  infinities or NaN (the source divides by a count of updates, which is at least 1 when
  it divides, and by the number of samples, which is positive). States and actions of the tabular rules are natural numbers, the
  indices of a two-dimensional table (numpy's negative indices and spaces of more than
  one dimension are outside the embedding); the states of the rules over a regressor are
  of any type. A private attribute \<^verbatim>\<open>self._x\<close> is the field \<open>p_x\<close>. Every value that the
  source obtains from the random source or from the external policy is an explicit leading
  argument of the function that consumes it.
\<close>

subsection \<open>Exceptions\<close>

datatype error = AssertionError | IndexError | ValueError | TypeError | NotImplementedError

definition and_then :: "error + 'a \<Rightarrow> ('a \<Rightarrow> error + 'b) \<Rightarrow> error + 'b" where
  "and_then m f = (case m of Inl e \<Rightarrow> Inl e | Inr x \<Rightarrow> f x)"

subsection \<open>numpy operations on vectors\<close>

text \<open>\<^verbatim>\<open>np.max\<close> of a one-dimensional array; an empty array raises \<^verbatim>\<open>ValueError\<close>.\<close>

fun np_max :: "real list \<Rightarrow> error + real" where
  "np_max [] = Inl ValueError"
| "np_max (x # xs) = Inr (fold max xs x)"

text \<open>\<^verbatim>\<open>u.dot(v)\<close> of one-dimensional arrays; different lengths raise \<^verbatim>\<open>ValueError\<close>.\<close>

definition np_dot :: "real list \<Rightarrow> real list \<Rightarrow> error + real" where
  "np_dot u v =
     (if length u \<noteq> length v then Inl ValueError
      else Inr (sum_list (map (\<lambda>(x, y). x * y) (zip u v))))"

text \<open>Python's \<^verbatim>\<open>xs[i]\<close> on a list, for an index that is not negative.\<close>

definition list_get :: "'a list \<Rightarrow> nat \<Rightarrow> error + 'a" where
  "list_get xs i = (if i < length xs then Inr (xs ! i) else Inl IndexError)"

subsection \<open>Value store\<close>

text \<open>
  Modelled from the spec: the class \<^verbatim>\<open>Table\<close> of \<^verbatim>\<open>mushroom.utils.table\<close> is not part of
  the sources. It is a dense array indexed by (state, action), of a shape fixed at
  construction, every entry initialised to one constant (0 by default), read by state and
  action (a scalar) or by state (the row over the actions), and written in place. An index
  outside the shape is an \<^verbatim>\<open>IndexError\<close>.
\<close>

type_synonym table = "real list list"

definition Table :: "nat \<times> nat \<Rightarrow> real \<Rightarrow> table" where
  "Table shape initial_value = replicate (fst shape) (replicate (snd shape) initial_value)"

definition getitem :: "table \<Rightarrow> nat \<Rightarrow> nat \<Rightarrow> error + real" where
  "getitem t state action =
     (if state < length t \<and> action < length (t ! state) then Inr (t ! state ! action)
      else Inl IndexError)"

definition getrow :: "table \<Rightarrow> nat \<Rightarrow> error + real list" where
  "getrow t state = (if state < length t then Inr (t ! state) else Inl IndexError)"

definition setitem :: "table \<Rightarrow> nat \<Rightarrow> nat \<Rightarrow> real \<Rightarrow> error + table" where
  "setitem t state action v =
     (if state < length t \<and> action < length (t ! state)
      then Inr (t[state := (t ! state)[action := v]])
      else Inl IndexError)"

subsection \<open>Parameter schedule\<close>

text \<open>
  Modelled from the spec: the class \<^verbatim>\<open>Parameter\<close> is not part of the sources. A schedule
  is a stateful callable \<^verbatim>\<open>schedule(state, action, target=None, factor=None) -> float\<close>.
  A call returns the coefficient together with the schedule in its next state, so a
  schedule is any such behaviour; \<^verbatim>\<open>deepcopy\<close> of a schedule is the schedule itself, as
  a value.
\<close>

codatatype 's parameter =
  Parameter (call: "'s \<Rightarrow> nat \<Rightarrow> real option \<Rightarrow> real option \<Rightarrow> real \<times> 's parameter")

text \<open>The schedule that returns the same coefficient at every call.\<close>

primcorec constant_parameter :: "real \<Rightarrow> 's parameter" where
  "call (constant_parameter c) = (\<lambda>state action target factor. (c, constant_parameter c))"

text \<open>The schedule that returns the coefficients of a list one after the other, then 0.\<close>

primcorec sequence_parameter :: "real list \<Rightarrow> 's parameter" where
  "call (sequence_parameter cs) =
     (\<lambda>state action target factor.
        (case cs of [] \<Rightarrow> 0 | c # _ \<Rightarrow> c, sequence_parameter (tl cs)))"

subsection \<open>MDP descriptor and the base class \<^verbatim>\<open>TD\<close>\<close>

record mdp_info =
  mdp_size :: "nat \<times> nat"
  gamma :: real
  action_space_n :: nat

text \<open>
  The attributes every rule has: the approximator \<^verbatim>\<open>self.Q\<close>, the learning rate
  \<^verbatim>\<open>self.alpha\<close>, the descriptor \<^verbatim>\<open>self.mdp_info\<close> and \<^verbatim>\<open>self.next_action\<close> (\<open>None\<close> until
  a rule records an action).
\<close>

record ('q, 'p) TD =
  Q :: 'q
  alpha :: 'p
  mdp_info :: mdp_info
  next_action :: "nat option"

type_synonym 's sample = "'s \<times> nat \<times> real \<times> 's \<times> bool"

definition parse :: "'s sample list \<Rightarrow> 's sample" where
  "parse dataset = dataset ! 0"

text \<open>\<^verbatim>\<open>TD.fit\<close>; the rule's \<^verbatim>\<open>_update\<close> is the first argument.\<close>

definition fit ::
  "('ag \<Rightarrow> 's \<Rightarrow> nat \<Rightarrow> real \<Rightarrow> 's \<Rightarrow> bool \<Rightarrow> error + 'ag) \<Rightarrow> 'ag \<Rightarrow> 's sample list
     \<Rightarrow> error + 'ag"
  where
  "fit update self dataset =
     (if length dataset \<noteq> 1 then Inl AssertionError
      else (case parse dataset of (state, action, reward, next_state, absorbing) \<Rightarrow>
              update self state action reward next_state absorbing))"

subsection \<open>Q-Learning\<close>

type_synonym QLearning = "(table, nat parameter) TD"

definition QLearning_init :: "mdp_info \<Rightarrow> nat parameter \<Rightarrow> QLearning" where
  "QLearning_init info learning_rate =
     \<lparr>Q = Table (mdp_size info) 0, alpha = learning_rate, mdp_info = info,
      next_action = None\<rparr>"

definition QLearning_update ::
  "QLearning \<Rightarrow> nat \<Rightarrow> nat \<Rightarrow> real \<Rightarrow> nat \<Rightarrow> bool \<Rightarrow> error + QLearning" where
  "QLearning_update self state action reward next_state absorbing =
     and_then (getitem (Q self) state action) (\<lambda>q_current.
     and_then (if \<not> absorbing then and_then (getrow (Q self) next_state) np_max else Inr 0)
       (\<lambda>q_next.
     case call (alpha self) state action None None of (a, alpha') \<Rightarrow>
     and_then (setitem (Q self) state action
                 (q_current + a * (reward + gamma (mdp_info self) * q_next - q_current)))
       (\<lambda>Q'.
     Inr (self\<lparr>Q := Q', alpha := alpha'\<rparr>))))"

subsection \<open>SARSA\<close>

text \<open>\<open>drawn\<close> is the action returned by \<^verbatim>\<open>self.draw_action(next_state)\<close>.\<close>

type_synonym SARSA = "(table, nat parameter) TD"

definition SARSA_init :: "mdp_info \<Rightarrow> nat parameter \<Rightarrow> SARSA" where
  "SARSA_init info learning_rate =
     \<lparr>Q = Table (mdp_size info) 0, alpha = learning_rate, mdp_info = info,
      next_action = None\<rparr>"

definition SARSA_update ::
  "nat \<Rightarrow> SARSA \<Rightarrow> nat \<Rightarrow> nat \<Rightarrow> real \<Rightarrow> nat \<Rightarrow> bool \<Rightarrow> error + SARSA" where
  "SARSA_update drawn self state action reward next_state absorbing =
     and_then (getitem (Q self) state action) (\<lambda>q_current.
     and_then (if \<not> absorbing then getitem (Q self) next_state drawn else Inr 0)
       (\<lambda>q_next.
     case call (alpha self) state action None None of (a, alpha') \<Rightarrow>
     and_then (setitem (Q self) state action
                 (q_current + a * (reward + gamma (mdp_info self) * q_next - q_current)))
       (\<lambda>Q'.
     Inr (self\<lparr>Q := Q', alpha := alpha', next_action := Some drawn\<rparr>))))"

subsection \<open>Expected SARSA\<close>

text \<open>\<open>probabilities\<close> is the vector returned by \<^verbatim>\<open>self.policy(next_state)\<close>.\<close>

type_synonym ExpectedSARSA = "(table, nat parameter) TD"

definition ExpectedSARSA_init :: "mdp_info \<Rightarrow> nat parameter \<Rightarrow> ExpectedSARSA" where
  "ExpectedSARSA_init info learning_rate =
     \<lparr>Q = Table (mdp_size info) 0, alpha = learning_rate, mdp_info = info,
      next_action = None\<rparr>"

definition ExpectedSARSA_update ::
  "real list \<Rightarrow> ExpectedSARSA \<Rightarrow> nat \<Rightarrow> nat \<Rightarrow> real \<Rightarrow> nat \<Rightarrow> bool \<Rightarrow> error + ExpectedSARSA"
  where
  "ExpectedSARSA_update probabilities self state action reward next_state absorbing =
     and_then (getitem (Q self) state action) (\<lambda>q_current.
     and_then (if \<not> absorbing
               then and_then (getrow (Q self) next_state) (\<lambda>row. np_dot row probabilities)
               else Inr 0)
       (\<lambda>q_next.
     case call (alpha self) state action None None of (a, alpha') \<Rightarrow>
     and_then (setitem (Q self) state action
                 (q_current + a * (reward + gamma (mdp_info self) * q_next - q_current)))
       (\<lambda>Q'.
     Inr (self\<lparr>Q := Q', alpha := alpha'\<rparr>))))"

subsection \<open>Double Q-Learning\<close>

text \<open>
  Modelled from the spec: the class \<^verbatim>\<open>EnsembleTable\<close> is not part of the sources. It is an
  ordered collection of value stores of one shape, each initialised on its own.
\<close>

definition EnsembleTable :: "nat \<Rightarrow> nat \<times> nat \<Rightarrow> table list" where
  "EnsembleTable n_models shape = replicate n_models (Table shape 0)"

text \<open>\<^verbatim>\<open>np.argwhere(q_ss == max_q).ravel()\<close>: the positions of \<open>max_q\<close>, in increasing order.\<close>

definition argwhere_eq :: "real list \<Rightarrow> real \<Rightarrow> nat list" where
  "argwhere_eq q_ss max_q = filter (\<lambda>i. q_ss ! i = max_q) [0..<length q_ss]"

text \<open>
  \<^verbatim>\<open>np.random.choice(a)\<close> on a one-dimensional array: \<open>k\<close> is the position that the random
  source draws, each position of \<open>a\<close> being as likely as any other; an empty array raises
  \<^verbatim>\<open>ValueError\<close>.
\<close>

definition np_random_choice :: "nat \<Rightarrow> 'a list \<Rightarrow> error + 'a" where
  "np_random_choice k a = (if k < length a then Inr (a ! k) else Inl ValueError)"

type_synonym DoubleQLearning = "(table list, nat parameter list) TD"

definition DoubleQLearning_init :: "mdp_info \<Rightarrow> nat parameter \<Rightarrow> error + DoubleQLearning" where
  "DoubleQLearning_init info learning_rate =
     (let self = \<lparr>Q = EnsembleTable 2 (mdp_size info), alpha = [learning_rate, learning_rate],
                  mdp_info = info, next_action = None\<rparr>
      in if length (Q self) = 2 then Inr self else Inl AssertionError)"

text \<open>
  \<open>u\<close> is the value of \<^verbatim>\<open>np.random.uniform()\<close>, a number of the interval from 0 to 1
  without 1, and \<open>k\<close> the position drawn by \<^verbatim>\<open>np.random.choice\<close>.
\<close>

definition DoubleQLearning_update ::
  "real \<Rightarrow> nat \<Rightarrow> DoubleQLearning \<Rightarrow> nat \<Rightarrow> nat \<Rightarrow> real \<Rightarrow> nat \<Rightarrow> bool \<Rightarrow> error + DoubleQLearning"
  where
  "DoubleQLearning_update u k self state action reward next_state absorbing =
     (let approximator_idx = (if u < 1 / 2 then 0 else 1 :: nat) in
      and_then (list_get (Q self) approximator_idx) (\<lambda>Q_idx.
      and_then (getitem Q_idx state action) (\<lambda>q_current.
      and_then (if \<not> absorbing
                then and_then (getrow Q_idx next_state) (\<lambda>q_ss.
                     and_then (np_max q_ss) (\<lambda>max_q.
                     and_then (np_random_choice k (argwhere_eq q_ss max_q)) (\<lambda>a_n.
                     and_then (list_get (Q self) (1 - approximator_idx)) (\<lambda>Q_other.
                     getitem Q_other next_state a_n))))
                else Inr 0)
        (\<lambda>q_next.
      and_then (list_get (alpha self) approximator_idx) (\<lambda>alpha_idx.
      case call alpha_idx state action None None of (a, alpha') \<Rightarrow>
      (let q = q_current + a * (reward + gamma (mdp_info self) * q_next - q_current) in
       and_then (setitem Q_idx state action q) (\<lambda>Q'.
       Inr (self\<lparr>Q := (Q self)[approximator_idx := Q'],
                 alpha := (alpha self)[approximator_idx := alpha']\<rparr>))))))))"

subsection \<open>Weighted Q-Learning\<close>

text \<open>A \<^verbatim>\<open>for\<close> loop that collects one result per element and stops at the first exception.\<close>

fun for_each :: "('a \<Rightarrow> error + 'b) \<Rightarrow> 'a list \<Rightarrow> error + 'b list" where
  "for_each f [] = Inr []"
| "for_each f (x # xs) =
     and_then (f x) (\<lambda>y. and_then (for_each f xs) (\<lambda>ys. Inr (y # ys)))"

text \<open>\<^verbatim>\<open>np.argmax\<close> of a one-dimensional array: the first position of the maximum.\<close>

definition np_argmax :: "real list \<Rightarrow> error + nat" where
  "np_argmax xs = and_then (np_max xs) (\<lambda>m. Inr (length (takeWhile (\<lambda>x. x \<noteq> m) xs)))"

record WeightedQLearning = "(table, nat parameter) TD" +
  p_sampling :: bool
  p_precision :: nat
  p_n_updates :: table
  p_sigma :: table
  p_Q :: table
  p_Q2 :: table
  p_weights_var :: table
  p_use_weighted_policy :: bool
  p_w :: "real list option"

definition WeightedQLearning_init ::
  "mdp_info \<Rightarrow> nat parameter \<Rightarrow> bool \<Rightarrow> nat \<Rightarrow> bool \<Rightarrow> WeightedQLearning" where
  "WeightedQLearning_init info learning_rate sampling precision weighted_policy =
     \<lparr>Q = Table (mdp_size info) 0, alpha = learning_rate, mdp_info = info,
      next_action = None, p_sampling = sampling, p_precision = precision,
      p_n_updates = Table (mdp_size info) 0, p_sigma = Table (mdp_size info) (10 ^ 10),
      p_Q = Table (mdp_size info) 0, p_Q2 = Table (mdp_size info) 0,
      p_weights_var = Table (mdp_size info) 0, p_use_weighted_policy = weighted_policy,
      p_w = None\<rparr>"

text \<open>
  \<^verbatim>\<open>WeightedQLearning._next_q\<close>: the value and the agent, which keeps the weights and, with
  the weighted policy, the drawn action. \<open>samples\<close> is the array returned by
  \<^verbatim>\<open>np.random.normal\<close>, one row of one sample per action for each of the \<^verbatim>\<open>_precision\<close>
  trials (a positive number), and \<open>drawn\<close> the action returned by \<^verbatim>\<open>np.random.choice\<close>
  with the weights as probabilities. \<open>count\<close> holds, for each action, the number of rows
  whose maximum is at that action, as \<^verbatim>\<open>np.unique\<close> counts them.
\<close>

definition WeightedQLearning_next_q ::
  "real list list \<Rightarrow> nat \<Rightarrow> WeightedQLearning \<Rightarrow> nat \<Rightarrow> error + real \<times> WeightedQLearning"
  where
  "WeightedQLearning_next_q samples drawn self next_state =
     and_then (getrow (Q self) next_state) (\<lambda>means.
     and_then (for_each (\<lambda>a. getitem (p_sigma self) next_state a) [0..<length means])
       (\<lambda>sigmas.
     and_then
       (if p_sampling self
        then and_then (for_each np_argmax samples) (\<lambda>max_idx.
             (let count = map (\<lambda>a. real (length (filter (\<lambda>i. i = a) max_idx)))
                              [0..<length means]
              in Inr (map (\<lambda>c. c / real (p_precision self)) count)))
        else Inl NotImplementedError)
       (\<lambda>w.
     (let self1 = self\<lparr>p_w := Some w\<rparr>;
          self2 = (if p_use_weighted_policy self1 then self1\<lparr>next_action := Some drawn\<rparr>
                   else self1)
      in and_then (np_dot w means) (\<lambda>q. Inr (q, self2))))))"

text \<open>
  In an augmented assignment \<^verbatim>\<open>t[s, a] += f(t[s, a])\<close> the two reads of the entry give
  the same value, which the embedding reads once.
\<close>

text \<open>
  The running statistics of \<^verbatim>\<open>WeightedQLearning._update\<close>: the lines from
  \<^verbatim>\<open>self._n_updates[state, action] += 1\<close> to the assignment of \<^verbatim>\<open>self._weights_var\<close>.
  \<open>a\<close> is the value of \<^verbatim>\<open>alpha\<close>.
\<close>

definition WeightedQLearning_update_statistics ::
  "real \<Rightarrow> real \<Rightarrow> WeightedQLearning \<Rightarrow> nat \<Rightarrow> nat \<Rightarrow> error + WeightedQLearning" where
  "WeightedQLearning_update_statistics target a self state action =
     and_then (getitem (p_n_updates self) state action) (\<lambda>n0.
     and_then (setitem (p_n_updates self) state action (n0 + 1)) (\<lambda>n_updates'.
     and_then (getitem (p_Q self) state action) (\<lambda>m1.
     and_then (getitem n_updates' state action) (\<lambda>n1.
     and_then (setitem (p_Q self) state action (m1 + (target - m1) / n1)) (\<lambda>Q1'.
     and_then (getitem (p_Q2 self) state action) (\<lambda>m2.
     and_then (getitem n_updates' state action) (\<lambda>n2.
     and_then (setitem (p_Q2 self) state action (m2 + (target ^ 2 - m2) / n2)) (\<lambda>Q2'.
     and_then (getitem (p_weights_var self) state action) (\<lambda>wv.
     and_then (setitem (p_weights_var self) state action ((1 - a) ^ 2 * wv + a ^ 2))
       (\<lambda>weights_var'.
     Inr (self\<lparr>p_n_updates := n_updates', p_Q := Q1', p_Q2 := Q2',
               p_weights_var := weights_var'\<rparr>)))))))))))"

text \<open>
  The last statement of \<^verbatim>\<open>WeightedQLearning._update\<close>:
  \<^verbatim>\<open>if self._n_updates[state, action] > 1:\<close> and its body.
\<close>

definition WeightedQLearning_update_sigma ::
  "WeightedQLearning \<Rightarrow> nat \<Rightarrow> nat \<Rightarrow> error + WeightedQLearning" where
  "WeightedQLearning_update_sigma self state action =
     and_then (getitem (p_n_updates self) state action) (\<lambda>n.
     if n > 1
     then and_then (getitem (p_n_updates self) state action) (\<lambda>n_a.
          and_then (getitem (p_Q2 self) state action) (\<lambda>q2.
          and_then (getitem (p_Q self) state action) (\<lambda>q1.
          and_then (getitem (p_n_updates self) state action) (\<lambda>n_b.
          (let var = n_a * (q2 - q1 ^ 2) / (n_b - 1) in
           and_then (getitem (p_weights_var self) state action) (\<lambda>wv.
           (let var_estimator = var * wv;
                var_estimator = max var_estimator (1 / 10 ^ 10)
            in and_then (setitem (p_sigma self) state action (sqrt var_estimator))
                 (\<lambda>sigma'.
               Inr (self\<lparr>p_sigma := sigma'\<rparr>)))))))))
     else Inr self)"

definition WeightedQLearning_update ::
  "real list list \<Rightarrow> nat \<Rightarrow> WeightedQLearning \<Rightarrow> nat \<Rightarrow> nat \<Rightarrow> real \<Rightarrow> nat \<Rightarrow> bool
     \<Rightarrow> error + WeightedQLearning" where
  "WeightedQLearning_update samples drawn self state action reward next_state absorbing =
     and_then (getitem (Q self) state action) (\<lambda>q_current.
     and_then (if \<not> absorbing then WeightedQLearning_next_q samples drawn self next_state
               else Inr (0, self))
       (\<lambda>(q_next, self1).
     (let target = reward + gamma (mdp_info self1) * q_next in
      case call (alpha self1) state action None None of (a, alpha') \<Rightarrow>
      and_then (setitem (Q self1) state action (q_current + a * (target - q_current)))
        (\<lambda>Q'.
      and_then (WeightedQLearning_update_statistics target a
                  (self1\<lparr>Q := Q', alpha := alpha'\<rparr>) state action)
        (\<lambda>self2.
      WeightedQLearning_update_sigma self2 state action)))))"

subsection \<open>Speedy Q-Learning\<close>

record SpeedyQLearning = "(table, nat parameter) TD" +
  old_q :: table

definition SpeedyQLearning_init :: "mdp_info \<Rightarrow> nat parameter \<Rightarrow> SpeedyQLearning" where
  "SpeedyQLearning_init info learning_rate =
     (let Q0 = Table (mdp_size info) 0 in
      \<lparr>Q = Q0, alpha = learning_rate, mdp_info = info, next_action = None, old_q = Q0\<rparr>)"

definition SpeedyQLearning_update ::
  "SpeedyQLearning \<Rightarrow> nat \<Rightarrow> nat \<Rightarrow> real \<Rightarrow> nat \<Rightarrow> bool \<Rightarrow> error + SpeedyQLearning" where
  "SpeedyQLearning_update self state action reward next_state absorbing =
     (let old_q' = Q self in
      and_then (if \<not> absorbing then and_then (getrow (Q self) next_state) np_max else Inr 0)
        (\<lambda>max_q_cur.
      and_then (if \<not> absorbing then and_then (getrow (old_q self) next_state) np_max
                else Inr 0)
        (\<lambda>max_q_old.
      (let target_cur = reward + gamma (mdp_info self) * max_q_cur;
           target_old = reward + gamma (mdp_info self) * max_q_old
       in case call (alpha self) state action None None of (a, alpha') \<Rightarrow>
          and_then (getitem (Q self) state action) (\<lambda>q_cur.
          and_then (setitem (Q self) state action
                      (q_cur + a * (target_old - q_cur) + (1 - a) * (target_cur - target_old)))
            (\<lambda>Q'.
          Inr (self\<lparr>Q := Q', alpha := alpha', old_q := old_q'\<rparr>)))))))"

subsection \<open>SARSA(lambda), discrete\<close>

text \<open>
  Modelled from the spec: \<^verbatim>\<open>EligibilityTrace\<close> is not part of the sources. A trace has
  the shape of its value store and one of two policies: replacing (the visited entry is
  set to 1) and accumulating (the visited entry is incremented by 1); \<^verbatim>\<open>reset\<close> sets every
  entry to 0.
\<close>

datatype trace_kind = Replacing | Accumulating

record EligibilityTrace =
  table :: table
  kind :: trace_kind

definition EligibilityTrace_init :: "nat \<times> nat \<Rightarrow> trace_kind \<Rightarrow> EligibilityTrace" where
  "EligibilityTrace_init shape name = \<lparr>table = Table shape 0, kind = name\<rparr>"

definition EligibilityTrace_update ::
  "EligibilityTrace \<Rightarrow> nat \<Rightarrow> nat \<Rightarrow> error + EligibilityTrace" where
  "EligibilityTrace_update tr state action =
     (case kind tr of
        Replacing \<Rightarrow>
          and_then (setitem (table tr) state action 1) (\<lambda>t'. Inr (tr\<lparr>table := t'\<rparr>))
      | Accumulating \<Rightarrow>
          and_then (getitem (table tr) state action) (\<lambda>v.
          and_then (setitem (table tr) state action (v + 1)) (\<lambda>t'. Inr (tr\<lparr>table := t'\<rparr>))))"

definition EligibilityTrace_reset :: "EligibilityTrace \<Rightarrow> EligibilityTrace" where
  "EligibilityTrace_reset tr = tr\<lparr>table := map (map (\<lambda>_. 0)) (table tr)\<rparr>"

text \<open>
  \<^verbatim>\<open>t += c * u\<close> and \<^verbatim>\<open>t *= c\<close> on two-dimensional arrays. The two arrays of the rule are
  built with one shape; arrays of different shapes raise \<^verbatim>\<open>ValueError\<close>.
\<close>

definition table_iadd_scaled :: "table \<Rightarrow> real \<Rightarrow> table \<Rightarrow> error + table" where
  "table_iadd_scaled t c u =
     (if map length t = map length u
      then Inr (map2 (\<lambda>t_row u_row. map2 (\<lambda>x y. x + c * y) t_row u_row) t u)
      else Inl ValueError)"

definition table_imul :: "table \<Rightarrow> real \<Rightarrow> table" where
  "table_imul t c = map (map (\<lambda>x. x * c)) t"

record SARSALambdaDiscrete = "(table, nat parameter) TD" +
  p_lambda :: real
  e :: EligibilityTrace

definition SARSALambdaDiscrete_init ::
  "mdp_info \<Rightarrow> nat parameter \<Rightarrow> real \<Rightarrow> trace_kind \<Rightarrow> SARSALambdaDiscrete" where
  "SARSALambdaDiscrete_init info learning_rate lambda_coeff trace =
     \<lparr>Q = Table (mdp_size info) 0, alpha = learning_rate, mdp_info = info,
      next_action = None, p_lambda = lambda_coeff,
      e = EligibilityTrace_init (mdp_size info) trace\<rparr>"

definition SARSALambdaDiscrete_update ::
  "nat \<Rightarrow> SARSALambdaDiscrete \<Rightarrow> nat \<Rightarrow> nat \<Rightarrow> real \<Rightarrow> nat \<Rightarrow> bool
     \<Rightarrow> error + SARSALambdaDiscrete" where
  "SARSALambdaDiscrete_update drawn self state action reward next_state absorbing =
     and_then (getitem (Q self) state action) (\<lambda>q_current.
     and_then (if \<not> absorbing then getitem (Q self) next_state drawn else Inr 0)
       (\<lambda>q_next.
     (let delta = reward + gamma (mdp_info self) * q_next - q_current in
      and_then (EligibilityTrace_update (e self) state action) (\<lambda>e1.
      case call (alpha self) state action None None of (a, alpha') \<Rightarrow>
      and_then (table_iadd_scaled (Q self) (a * delta) (table e1)) (\<lambda>Q'.
      Inr (self\<lparr>Q := Q', alpha := alpha', next_action := Some drawn,
                e := e1\<lparr>table := table_imul (table e1)
                                   (gamma (mdp_info self) * p_lambda self)\<rparr>\<rparr>))))))"

definition SARSALambdaDiscrete_episode_start :: "SARSALambdaDiscrete \<Rightarrow> SARSALambdaDiscrete"
  where
  "SARSALambdaDiscrete_episode_start self = self\<lparr>e := EligibilityTrace_reset (e self)\<rparr>"

subsection \<open>SARSA(lambda), continuous\<close>

text \<open>
  Modelled from the spec: \<^verbatim>\<open>Regressor\<close> is not part of the sources. A regressor holds a
  vector of weights and exposes \<^verbatim>\<open>predict(features, action)\<close>, \<^verbatim>\<open>diff(features, action)\<close>
  (the gradient vector for that state and action), \<^verbatim>\<open>get_weights\<close> and \<^verbatim>\<open>set_weights\<close>;
  what it predicts from its weights is the model's business, the fields \<open>model_predict\<close>
  and \<open>model_diff\<close>.
\<close>

record Regressor =
  weights :: "real list"
  model_predict :: "real list \<Rightarrow> real list \<Rightarrow> nat \<Rightarrow> real"
  model_diff :: "real list \<Rightarrow> real list \<Rightarrow> nat \<Rightarrow> real list"

definition predict :: "Regressor \<Rightarrow> real list \<Rightarrow> nat \<Rightarrow> real" where
  "predict r features action = model_predict r (weights r) features action"

definition diff :: "Regressor \<Rightarrow> real list \<Rightarrow> nat \<Rightarrow> real list" where
  "diff r features action = model_diff r (weights r) features action"

definition get_weights :: "Regressor \<Rightarrow> real list" where
  "get_weights r = weights r"

definition set_weights :: "Regressor \<Rightarrow> real list \<Rightarrow> Regressor" where
  "set_weights r w = r\<lparr>weights := w\<rparr>"

definition weights_size :: "Regressor \<Rightarrow> nat" where
  "weights_size r = length (weights r)"

text \<open>
  \<^verbatim>\<open>u + v\<close> and \<^verbatim>\<open>c * v\<close> on one-dimensional arrays. The vectors of the rules have the
  length of the weights; vectors of different lengths raise \<^verbatim>\<open>ValueError\<close>.
\<close>

definition np_add :: "real list \<Rightarrow> real list \<Rightarrow> error + real list" where
  "np_add u v =
     (if length u = length v then Inr (map2 (\<lambda>x y. x + y) u v) else Inl ValueError)"

definition np_scale :: "real \<Rightarrow> real list \<Rightarrow> real list" where
  "np_scale c v = map (\<lambda>x. c * x) v"

definition np_zeros :: "nat \<Rightarrow> real list" where
  "np_zeros n = replicate n 0"

record 's SARSALambdaContinuous = "(Regressor, 's parameter) TD" +
  phi :: "'s \<Rightarrow> real list"
  e :: "real list"
  p_lambda :: real

definition SARSALambdaContinuous_init ::
  "Regressor \<Rightarrow> mdp_info \<Rightarrow> 's parameter \<Rightarrow> real \<Rightarrow> ('s \<Rightarrow> real list)
     \<Rightarrow> 's SARSALambdaContinuous" where
  "SARSALambdaContinuous_init approximator info learning_rate lambda_coeff features =
     \<lparr>Q = approximator, alpha = learning_rate, mdp_info = info, next_action = None,
      phi = features, e = np_zeros (weights_size approximator), p_lambda = lambda_coeff\<rparr>"

definition SARSALambdaContinuous_update ::
  "nat \<Rightarrow> 's SARSALambdaContinuous \<Rightarrow> 's \<Rightarrow> nat \<Rightarrow> real \<Rightarrow> 's \<Rightarrow> bool
     \<Rightarrow> error + 's SARSALambdaContinuous" where
  "SARSALambdaContinuous_update drawn self state action reward next_state absorbing =
     (let phi_state = phi self state;
          q_current = predict (Q self) phi_state action
      in case call (alpha self) state action None None of (a, alpha') \<Rightarrow>
      and_then (np_add (np_scale (gamma (mdp_info self) * p_lambda self) (e self))
                       (diff (Q self) phi_state action))
        (\<lambda>e'.
      (let phi_next_state = phi self next_state;
           q_next = (if \<not> absorbing then predict (Q self) phi_next_state drawn else 0);
           delta = reward + gamma (mdp_info self) * q_next - q_current;
           theta = get_weights (Q self)
       in and_then (np_add theta (np_scale (a * delta) e')) (\<lambda>theta'.
          Inr (self\<lparr>Q := set_weights (Q self) theta', alpha := alpha',
                    next_action := Some drawn, e := e'\<rparr>)))))"

definition SARSALambdaContinuous_episode_start ::
  "'s SARSALambdaContinuous \<Rightarrow> 's SARSALambdaContinuous" where
  "SARSALambdaContinuous_episode_start self = self\<lparr>e := np_zeros (weights_size (Q self))\<rparr>"

subsection \<open>True Online SARSA(lambda)\<close>

record 's TrueOnlineSARSALambda = "(Regressor, 's parameter) TD" +
  phi :: "'s \<Rightarrow> real list"
  e :: "real list"
  p_lambda :: real
  p_q_old :: "real option"

definition TrueOnlineSARSALambda_init ::
  "Regressor \<Rightarrow> mdp_info \<Rightarrow> 's parameter \<Rightarrow> real \<Rightarrow> ('s \<Rightarrow> real list)
     \<Rightarrow> 's TrueOnlineSARSALambda" where
  "TrueOnlineSARSALambda_init linear_approximator info learning_rate lambda_coeff features =
     \<lparr>Q = linear_approximator, alpha = learning_rate, mdp_info = info, next_action = None,
      phi = features, e = np_zeros (weights_size linear_approximator),
      p_lambda = lambda_coeff, p_q_old = None\<rparr>"

text \<open>
  \<^verbatim>\<open>get_action_features\<close> of \<^verbatim>\<open>mushroom.features\<close> is not part of the sources: it is the
  first argument.
\<close>

definition TrueOnlineSARSALambda_update ::
  "(real list \<Rightarrow> nat \<Rightarrow> nat \<Rightarrow> real list) \<Rightarrow> nat \<Rightarrow> 's TrueOnlineSARSALambda \<Rightarrow> 's \<Rightarrow> nat
     \<Rightarrow> real \<Rightarrow> 's \<Rightarrow> bool \<Rightarrow> error + 's TrueOnlineSARSALambda" where
  "TrueOnlineSARSALambda_update get_action_features drawn self state action reward next_state
       absorbing =
     (let phi_state = phi self state;
          phi_state_action =
            get_action_features phi_state action (action_space_n (mdp_info self));
          q_current = predict (Q self) phi_state action;
          q_old = (case p_q_old self of None \<Rightarrow> q_current | Some q \<Rightarrow> q)
      in case call (alpha self) state action None None of (a, alpha') \<Rightarrow>
      and_then (np_dot (e self) phi_state_action) (\<lambda>e_phi.
      and_then (np_add (np_scale (gamma (mdp_info self) * p_lambda self) (e self))
                       (np_scale (a * (1 - gamma (mdp_info self) * p_lambda self * e_phi))
                                 phi_state_action))
        (\<lambda>e'.
      (let phi_next_state = phi self next_state;
           q_next = (if \<not> absorbing then predict (Q self) phi_next_state drawn else 0);
           delta = reward + gamma (mdp_info self) * q_next - q_old;
           theta = get_weights (Q self)
       in and_then (np_add (np_scale delta e')
                           (np_scale (a * (q_old - q_current)) phi_state_action))
            (\<lambda>increment.
          and_then (np_add theta increment) (\<lambda>theta'.
          Inr (self\<lparr>Q := set_weights (Q self) theta', alpha := alpha',
                    next_action := Some drawn, e := e', p_q_old := Some q_next\<rparr>)))))))"

definition TrueOnlineSARSALambda_episode_start ::
  "'s TrueOnlineSARSALambda \<Rightarrow> 's TrueOnlineSARSALambda" where
  "TrueOnlineSARSALambda_episode_start self =
     self\<lparr>p_q_old := None, e := np_zeros (weights_size (Q self))\<rparr>"

subsection \<open>R-Learning\<close>

record RLearning = "(table, nat parameter) TD" +
  p_rho :: real
  beta :: "nat parameter"

definition RLearning_init :: "mdp_info \<Rightarrow> nat parameter \<Rightarrow> nat parameter \<Rightarrow> RLearning" where
  "RLearning_init info learning_rate beta0 =
     \<lparr>Q = Table (mdp_size info) 0, alpha = learning_rate, mdp_info = info,
      next_action = None, p_rho = 0, beta = beta0\<rparr>"

definition RLearning_update ::
  "RLearning \<Rightarrow> nat \<Rightarrow> nat \<Rightarrow> real \<Rightarrow> nat \<Rightarrow> bool \<Rightarrow> error + RLearning" where
  "RLearning_update self state action reward next_state absorbing =
     and_then (getitem (Q self) state action) (\<lambda>q_current.
     and_then (if \<not> absorbing then and_then (getrow (Q self) next_state) np_max else Inr 0)
       (\<lambda>q_next.
     (let delta = reward - p_rho self + q_next - q_current in
      case call (alpha self) state action None None of (a, alpha') \<Rightarrow>
      (let q_new = q_current + a * delta in
       and_then (setitem (Q self) state action q_new) (\<lambda>Q'.
       and_then (and_then (getrow Q' state) np_max) (\<lambda>q_max.
       if q_new = q_max
       then (let delta = reward + q_next - q_max - p_rho self in
             case call (RLearning.beta self) state action None None of (b, beta') \<Rightarrow>
             Inr (self\<lparr>Q := Q', alpha := alpha', p_rho := p_rho self + b * delta,
                       RLearning.beta := beta'\<rparr>))
       else Inr (self\<lparr>Q := Q', alpha := alpha'\<rparr>)))))))"

subsection \<open>RQ-Learning\<close>

record RQLearning = "(table, nat parameter) TD" +
  off_policy :: bool
  delta :: "nat parameter option"
  beta :: "nat parameter option"
  Q_tilde :: table
  R_tilde :: table

definition RQLearning_init ::
  "mdp_info \<Rightarrow> nat parameter \<Rightarrow> bool \<Rightarrow> nat parameter option \<Rightarrow> nat parameter option
     \<Rightarrow> error + RQLearning" where
  "RQLearning_init info learning_rate off_policy0 beta0 delta0 =
     and_then (if delta0 \<noteq> None \<and> beta0 = None then Inr (delta0, None)
               else if delta0 = None \<and> beta0 \<noteq> None then Inr (None, beta0)
               else Inl ValueError)
       (\<lambda>(delta1, beta1).
     Inr \<lparr>Q = Table (mdp_size info) 0, alpha = learning_rate, mdp_info = info,
          next_action = None, off_policy = off_policy0, delta = delta1, beta = beta1,
          Q_tilde = Table (mdp_size info) 0, R_tilde = Table (mdp_size info) 0\<rparr>)"

text \<open>
  \<^verbatim>\<open>RQLearning._next_q\<close>: the value and the agent, which records the drawn action in the
  on-policy setting. \<open>drawn\<close> is the action returned by \<^verbatim>\<open>self.draw_action(next_state)\<close>.
\<close>

definition RQLearning_next_q :: "nat \<Rightarrow> RQLearning \<Rightarrow> nat \<Rightarrow> error + real \<times> RQLearning" where
  "RQLearning_next_q drawn self next_state =
     (if off_policy self
      then and_then (and_then (getrow (Q self) next_state) np_max) (\<lambda>q. Inr (q, self))
      else (let self1 = self\<lparr>next_action := Some drawn\<rparr> in
            and_then (getitem (Q self1) next_state drawn) (\<lambda>q. Inr (q, self1))))"

text \<open>
  The coefficient \<^verbatim>\<open>beta\<close> of \<^verbatim>\<open>RQLearning._update\<close>, from \<^verbatim>\<open>self.delta\<close> if it is not
  \<open>None\<close> and from \<^verbatim>\<open>self.beta\<close> otherwise, and the agent with the schedule that was
  called in its next state. \<open>a\<close> is the value of \<^verbatim>\<open>alpha\<close>. Calling an attribute that is
  \<open>None\<close> is a \<^verbatim>\<open>TypeError\<close>.
\<close>

definition RQLearning_beta_value ::
  "real \<Rightarrow> real \<Rightarrow> RQLearning \<Rightarrow> nat \<Rightarrow> nat \<Rightarrow> error + real \<times> RQLearning" where
  "RQLearning_beta_value a q_next self state action =
     (case delta self of
        Some d \<Rightarrow>
          (case call d state action (Some q_next) (Some a) of (v, d') \<Rightarrow>
             Inr (a * v, self\<lparr>delta := Some d'\<rparr>))
      | None \<Rightarrow>
          (case beta self of
             Some b \<Rightarrow>
               (case call b state action (Some q_next) None of (v, b') \<Rightarrow>
                  Inr (v, self\<lparr>beta := Some b'\<rparr>))
           | None \<Rightarrow> Inl TypeError))"

text \<open>The body of \<^verbatim>\<open>if not absorbing:\<close> in \<^verbatim>\<open>RQLearning._update\<close>.\<close>

definition RQLearning_update_not_absorbing ::
  "nat \<Rightarrow> real \<Rightarrow> RQLearning \<Rightarrow> nat \<Rightarrow> nat \<Rightarrow> nat \<Rightarrow> error + RQLearning" where
  "RQLearning_update_not_absorbing drawn a self state action next_state =
     and_then (RQLearning_next_q drawn self next_state) (\<lambda>(q_next, self2).
     and_then (RQLearning_beta_value a q_next self2 state action) (\<lambda>(beta_value, self3).
     and_then (getitem (Q_tilde self3) state action) (\<lambda>q_lhs.
     and_then (getitem (Q_tilde self3) state action) (\<lambda>q_rhs.
     and_then (setitem (Q_tilde self3) state action (q_lhs + beta_value * (q_next - q_rhs)))
       (\<lambda>Q_tilde'.
     Inr (self3\<lparr>Q_tilde := Q_tilde'\<rparr>))))))"

definition RQLearning_update ::
  "nat \<Rightarrow> RQLearning \<Rightarrow> nat \<Rightarrow> nat \<Rightarrow> real \<Rightarrow> nat \<Rightarrow> bool \<Rightarrow> error + RQLearning" where
  "RQLearning_update drawn self state action reward next_state absorbing =
     (case call (alpha self) state action (Some reward) None of (a, alpha') \<Rightarrow>
      and_then (getitem (R_tilde self) state action) (\<lambda>r_lhs.
      and_then (getitem (R_tilde self) state action) (\<lambda>r_rhs.
      and_then (setitem (R_tilde self) state action (r_lhs + a * (reward - r_rhs)))
        (\<lambda>R_tilde'.
      (let self1 = self\<lparr>alpha := alpha', R_tilde := R_tilde'\<rparr> in
       and_then
         (if \<not> absorbing
          then RQLearning_update_not_absorbing drawn a self1 state action next_state
          else Inr self1)
         (\<lambda>self4.
       and_then (getitem (R_tilde self4) state action) (\<lambda>r.
       and_then (getitem (Q_tilde self4) state action) (\<lambda>q.
       and_then (setitem (Q self4) state action (r + gamma (mdp_info self4) * q)) (\<lambda>Q'.
       Inr (self4\<lparr>Q := Q'\<rparr>))))))))))"

text \<open>
  The relation between the three tables of RQ-Learning that the rule maintains: every entry
  of \<open>Q\<close> is the entry of \<open>R_tilde\<close> plus \<open>gamma\<close> times the entry of \<open>Q_tilde\<close>.
\<close>

definition combined :: "RQLearning \<Rightarrow> bool" where
  "combined self \<longleftrightarrow>
     (\<forall>s < length (Q self). \<forall>a < length (Q self ! s).
        Q self ! s ! a = R_tilde self ! s ! a + gamma (mdp_info self) * Q_tilde self ! s ! a)"

text \<open>
  A sequence of calls of \<^verbatim>\<open>fit\<close>, each with the action that the policy draws in it; the
  sequence stops at the first exception.
\<close>

fun RQLearning_fit_all :: "(nat \<times> nat sample) list \<Rightarrow> RQLearning \<Rightarrow> error + RQLearning" where
  "RQLearning_fit_all [] self = Inr self"
| "RQLearning_fit_all ((drawn, transition) # rest) self =
     and_then (fit (RQLearning_update drawn) self [transition]) (RQLearning_fit_all rest)"

text \<open>
  A sequence of calls of \<^verbatim>\<open>fit\<close> of Weighted Q-Learning, each with the samples and the
  action that the random source draws in it; the sequence stops at the first exception.
\<close>

fun WeightedQLearning_fit_all ::
  "(real list list \<times> nat \<times> nat sample) list \<Rightarrow> WeightedQLearning \<Rightarrow> error + WeightedQLearning"
  where
  "WeightedQLearning_fit_all [] self = Inr self"
| "WeightedQLearning_fit_all ((samples, drawn, transition) # rest) self =
     and_then (fit (WeightedQLearning_update samples drawn) self [transition])
       (WeightedQLearning_fit_all rest)"

text \<open>No entry of the store \<^verbatim>\<open>_sigma\<close> is below the square root of \<^verbatim>\<open>1e-10\<close>.\<close>

definition sigma_floor :: "WeightedQLearning \<Rightarrow> bool" where
  "sigma_floor self \<longleftrightarrow> (\<forall>row \<in> set (p_sigma self). \<forall>x \<in> set row. sqrt (1 / 10 ^ 10) \<le> x)"

subsection \<open>Agents for the examples\<close>

text \<open>
  One agent of each rule, with the learning rate as a parameter: two states and two
  actions for the tabular rules, one weight for the rules over a regressor, whose
  prediction is the weight times the feature.
\<close>

definition example_mdp :: mdp_info where
  "example_mdp = \<lparr>mdp_size = (2, 2), gamma = 1 / 2, action_space_n = 2\<rparr>"

definition example_TD :: "nat parameter \<Rightarrow> (table, nat parameter) TD" where
  "example_TD learning_rate =
     \<lparr>Q = [[2, 0], [4, 1]], alpha = learning_rate, mdp_info = example_mdp,
      next_action = None\<rparr>"

definition example_DoubleQLearning :: "nat parameter \<Rightarrow> DoubleQLearning" where
  "example_DoubleQLearning learning_rate =
     \<lparr>Q = [[[2, 0], [4, 1]], [[0, 0], [5, 7]]], alpha = [learning_rate, learning_rate],
      mdp_info = example_mdp, next_action = None\<rparr>"

definition example_WeightedQLearning :: "nat parameter \<Rightarrow> WeightedQLearning" where
  "example_WeightedQLearning learning_rate =
     \<lparr>Q = [[2, 0], [4, 1]], alpha = learning_rate, mdp_info = example_mdp,
      next_action = None, p_sampling = True, p_precision = 2,
      p_n_updates = [[0, 0], [0, 0]], p_sigma = [[10 ^ 10, 10 ^ 10], [10 ^ 10, 10 ^ 10]],
      p_Q = [[0, 0], [0, 0]], p_Q2 = [[0, 0], [0, 0]], p_weights_var = [[0, 0], [0, 0]],
      p_use_weighted_policy = False, p_w = None\<rparr>"

definition example_SpeedyQLearning :: "nat parameter \<Rightarrow> SpeedyQLearning" where
  "example_SpeedyQLearning learning_rate =
     \<lparr>Q = [[2, 0], [4, 1]], alpha = learning_rate, mdp_info = example_mdp,
      next_action = None, old_q = [[1, 0], [2, 3]]\<rparr>"

definition example_SARSALambdaDiscrete :: "nat parameter \<Rightarrow> SARSALambdaDiscrete" where
  "example_SARSALambdaDiscrete learning_rate =
     \<lparr>Q = [[2, 0], [4, 1]], alpha = learning_rate, mdp_info = example_mdp,
      next_action = None, SARSALambdaDiscrete.p_lambda = 1 / 2,
      SARSALambdaDiscrete.e = \<lparr>table = [[0, 0], [0, 1]], kind = Replacing\<rparr>\<rparr>"

definition example_Regressor :: Regressor where
  "example_Regressor =
     \<lparr>weights = [3], model_predict = (\<lambda>w features action. hd w * hd features),
      model_diff = (\<lambda>w features action. features)\<rparr>"

definition example_SARSALambdaContinuous :: "nat parameter \<Rightarrow> nat SARSALambdaContinuous" where
  "example_SARSALambdaContinuous learning_rate =
     \<lparr>Q = example_Regressor, alpha = learning_rate, mdp_info = example_mdp,
      next_action = None, SARSALambdaContinuous.phi = (\<lambda>state. [1]),
      SARSALambdaContinuous.e = [1], SARSALambdaContinuous.p_lambda = 1 / 2\<rparr>"

definition example_TrueOnlineSARSALambda :: "nat parameter \<Rightarrow> nat TrueOnlineSARSALambda" where
  "example_TrueOnlineSARSALambda learning_rate =
     \<lparr>Q = example_Regressor, alpha = learning_rate, mdp_info = example_mdp,
      next_action = None, phi = (\<lambda>state. [1]), e = [1], p_lambda = 1 / 2,
      p_q_old = None\<rparr>"

definition example_action_features :: "real list \<Rightarrow> nat \<Rightarrow> nat \<Rightarrow> real list" where
  "example_action_features features action n = features"

definition example_RLearning :: "nat parameter \<Rightarrow> RLearning" where
  "example_RLearning learning_rate =
     \<lparr>Q = [[2, 0], [4, 1]], alpha = learning_rate, mdp_info = example_mdp,
      next_action = None, p_rho = 0, RLearning.beta = constant_parameter (1 / 10)\<rparr>"

text \<open>
  The agent of RQ-Learning is the one that the constructor, with two states and one action,
  \<open>gamma = 1/2\<close>, the off-policy setting and \<open>beta = 1\<close>, becomes after two updates of the
  pair \<open>(0, 0)\<close> with reward 1, next state 0 and \<open>alpha = 1\<close>.
\<close>

definition example_RQLearning :: "nat parameter \<Rightarrow> RQLearning" where
  "example_RQLearning learning_rate =
     \<lparr>Q = [[3 / 2], [0]], alpha = learning_rate,
      mdp_info = \<lparr>mdp_size = (2, 1), gamma = 1 / 2, action_space_n = 1\<rparr>,
      next_action = None, off_policy = True, delta = None,
      beta = Some (constant_parameter 1), Q_tilde = [[1], [0]], R_tilde = [[1], [0]]\<rparr>"

section \<open>Properties\<close>

lemma and_then_Inr_iff:
  "and_then m f = Inr y \<longleftrightarrow> (\<exists>x. m = Inr x \<and> f x = Inr y)"
  by (cases m) (simp_all add: and_then_def)

subsection \<open>The operations on results, vectors and tables\<close>

lemma and_then_Inr [simp]: "and_then (Inr x) f = f x"
  by (simp add: and_then_def)

lemma and_then_Inl [simp]: "and_then (Inl err) f = Inl err"
  by (simp add: and_then_def)

lemma np_max_Inr_iff: "np_max xs = Inr m \<longleftrightarrow> xs \<noteq> [] \<and> m = Max (set xs)"
proof (cases xs)
  case Nil
  then show ?thesis by simp
next
  case (Cons x ys)
  have "fold max ys x = Max (set (x # ys))"
    by (rule Max.set_eq_fold [symmetric])
  with Cons show ?thesis by auto
qed

lemma getitem_Inr_iff:
  "getitem t s a = Inr v \<longleftrightarrow> s < length t \<and> a < length (t ! s) \<and> v = t ! s ! a"
  by (auto simp: getitem_def)

lemma getrow_Inr_iff: "getrow t s = Inr r \<longleftrightarrow> s < length t \<and> r = t ! s"
  by (auto simp: getrow_def)

lemma setitem_Inr_iff:
  "setitem t s a v = Inr t' \<longleftrightarrow>
     s < length t \<and> a < length (t ! s) \<and> t' = t[s := (t ! s)[a := v]]"
  by (auto simp: setitem_def)

subsection \<open>What the one-step rules return\<close>

lemma QLearning_update_Inr_iff:
  "QLearning_update self state action reward next_state absorbing = Inr self' \<longleftrightarrow>
     state < length (Q self) \<and> action < length (Q self ! state) \<and>
     (absorbing \<or> next_state < length (Q self) \<and> Q self ! next_state \<noteq> []) \<and>
     self' = self\<lparr>Q := (Q self)[state := (Q self ! state)[action :=
                Q self ! state ! action +
                fst (call (alpha self) state action None None) *
                (reward + gamma (mdp_info self) *
                   (if absorbing then 0 else Max (set (Q self ! next_state))) -
                 Q self ! state ! action)]],
              alpha := snd (call (alpha self) state action None None)\<rparr>"
  by (auto simp: QLearning_update_def and_then_Inr_iff getitem_Inr_iff getrow_Inr_iff
      setitem_Inr_iff np_max_Inr_iff split: prod.splits)


lemma SARSA_update_Inr_iff:
  "SARSA_update drawn self state action reward next_state absorbing = Inr self' \<longleftrightarrow>
     state < length (Q self) \<and> action < length (Q self ! state) \<and>
     (absorbing \<or> next_state < length (Q self) \<and> drawn < length (Q self ! next_state)) \<and>
     self' = self\<lparr>Q := (Q self)[state := (Q self ! state)[action :=
                Q self ! state ! action +
                fst (call (alpha self) state action None None) *
                (reward + gamma (mdp_info self) *
                   (if absorbing then 0 else Q self ! next_state ! drawn) -
                 Q self ! state ! action)]],
              alpha := snd (call (alpha self) state action None None),
              next_action := Some drawn\<rparr>"
  by (auto simp: SARSA_update_def and_then_Inr_iff getitem_Inr_iff
      setitem_Inr_iff split: prod.splits)

lemma np_dot_Inr_iff:
  "np_dot u v = Inr d \<longleftrightarrow> length u = length v \<and> d = (\<Sum>i<length u. u ! i * v ! i)"
proof -
  have "sum_list (map (\<lambda>(x, y). x * y) (zip u v)) = (\<Sum>i<length u. u ! i * v ! i)"
    if "length u = length v"
  proof -
    have "sum_list (map (\<lambda>(x, y). x * y) (zip u v)) =
          (\<Sum>i = 0..<length (zip u v). map (\<lambda>(x, y). x * y) (zip u v) ! i)"
      by (simp add: sum_list_sum_nth)
    also have "\<dots> = (\<Sum>i = 0..<length u. u ! i * v ! i)"
      using that by (intro sum.cong) auto
    finally show ?thesis by (simp add: lessThan_atLeast0)
  qed
  then show ?thesis by (auto simp: np_dot_def)
qed

lemma ExpectedSARSA_update_Inr_iff:
  "ExpectedSARSA_update probabilities self state action reward next_state absorbing = Inr self'
     \<longleftrightarrow>
     state < length (Q self) \<and> action < length (Q self ! state) \<and>
     (absorbing \<or> next_state < length (Q self) \<and>
        length (Q self ! next_state) = length probabilities) \<and>
     self' = self\<lparr>Q := (Q self)[state := (Q self ! state)[action :=
                Q self ! state ! action +
                fst (call (alpha self) state action None None) *
                (reward + gamma (mdp_info self) *
                   (if absorbing then 0
                    else (\<Sum>i<length (Q self ! next_state).
                            Q self ! next_state ! i * probabilities ! i)) -
                 Q self ! state ! action)]],
              alpha := snd (call (alpha self) state action None None)\<rparr>"
  by (auto simp: ExpectedSARSA_update_def and_then_Inr_iff getitem_Inr_iff getrow_Inr_iff
      setitem_Inr_iff np_dot_Inr_iff split: prod.splits)

text \<open>
  C4. For the one-step rules Q-Learning, SARSA and Expected SARSA, one call to \<^verbatim>\<open>_update\<close>
  on valid indices returns and sets \<open>Q_after(s, a) = Q_before(s, a) + alpha * (target -
  Q_before(s, a))\<close>, with \<open>target = reward + gamma * q_next\<close> and \<open>q_next\<close> the bootstrap
  value of the rule (the row maximum, the entry of the drawn action, the expectation under
  the policy's probabilities; 0 when absorbing). For \<open>Q_before = 2\<close>, \<open>alpha = 0.5\<close>,
  \<open>reward = 1\<close>, \<open>gamma = 0.9\<close> and \<open>q_next = 4\<close> the target is 4.6 and \<open>Q_after\<close> is
  3.3.
\<close>

theorem residual_update_law:
  fixes self :: "(table, nat parameter) TD"
  assumes "state < length (Q self)" and "action < length (Q self ! state)"
    and "q_before = Q self ! state ! action"
    and "a = fst (call (alpha self) state action None None)"
    and "target = reward + gamma (mdp_info self) * q_next"
    and "q_after = q_before + a * (target - q_before)"
  shows "(q_next = (if absorbing then 0 else Max (set (Q self ! next_state))) \<and>
          (absorbing \<or> next_state < length (Q self) \<and> Q self ! next_state \<noteq> []) \<longrightarrow>
          (\<exists>self'. QLearning_update self state action reward next_state absorbing = Inr self' \<and>
                   Q self' = (Q self)[state := (Q self ! state)[action := q_after]])) \<and>
         (q_next = (if absorbing then 0 else Q self ! next_state ! drawn) \<and>
          (absorbing \<or> next_state < length (Q self) \<and> drawn < length (Q self ! next_state)) \<longrightarrow>
          (\<exists>self'. SARSA_update drawn self state action reward next_state absorbing = Inr self' \<and>
                   Q self' = (Q self)[state := (Q self ! state)[action := q_after]])) \<and>
         (q_next = (if absorbing then 0
                    else (\<Sum>i<length (Q self ! next_state).
                            Q self ! next_state ! i * probabilities ! i)) \<and>
          (absorbing \<or> next_state < length (Q self) \<and>
             length (Q self ! next_state) = length probabilities) \<longrightarrow>
          (\<exists>self'. ExpectedSARSA_update probabilities self state action reward next_state
                     absorbing = Inr self' \<and>
                   Q self' = (Q self)[state := (Q self ! state)[action := q_after]])) \<and>
         (q_before = 2 \<and> a = 1 / 2 \<and> reward = 1 \<and> gamma (mdp_info self) = 9 / 10 \<and> q_next = 4
            \<longrightarrow> target = 46 / 10 \<and> q_after = 33 / 10)"
proof (intro conjI impI)
  assume h: "q_next = (if absorbing then 0 else Max (set (Q self ! next_state))) \<and>
          (absorbing \<or> next_state < length (Q self) \<and> Q self ! next_state \<noteq> [])"
  show "\<exists>self'. QLearning_update self state action reward next_state absorbing = Inr self' \<and>
                   Q self' = (Q self)[state := (Q self ! state)[action := q_after]]"
    using assms h by (simp add: QLearning_update_Inr_iff)
next
  assume h: "q_next = (if absorbing then 0 else Q self ! next_state ! drawn) \<and>
          (absorbing \<or> next_state < length (Q self) \<and> drawn < length (Q self ! next_state))"
  show "\<exists>self'. SARSA_update drawn self state action reward next_state absorbing = Inr self' \<and>
                   Q self' = (Q self)[state := (Q self ! state)[action := q_after]]"
    using assms h by (simp add: SARSA_update_Inr_iff)
next
  assume h: "q_next = (if absorbing then 0
                    else (\<Sum>i<length (Q self ! next_state).
                            Q self ! next_state ! i * probabilities ! i)) \<and>
          (absorbing \<or> next_state < length (Q self) \<and>
             length (Q self ! next_state) = length probabilities)"
  show "\<exists>self'. ExpectedSARSA_update probabilities self state action reward next_state
                     absorbing = Inr self' \<and>
                   Q self' = (Q self)[state := (Q self ! state)[action := q_after]]"
    using assms h by (simp add: ExpectedSARSA_update_Inr_iff)
next
  assume "q_before = 2 \<and> a = 1 / 2 \<and> reward = 1 \<and> gamma (mdp_info self) = 9 / 10 \<and> q_next = 4"
  with assms show "target = 46 / 10" by simp
next
  assume "q_before = 2 \<and> a = 1 / 2 \<and> reward = 1 \<and> gamma (mdp_info self) = 9 / 10 \<and> q_next = 4"
  with assms show "q_after = 33 / 10" by simp
qed


theorem residual_update_law_witness:
  "(\<exists>self'. QLearning_update
             \<lparr>Q = [[2, 0], [4, 1]], alpha = constant_parameter (1 / 2),
              mdp_info = \<lparr>mdp_size = (2, 2), gamma = 9 / 10, action_space_n = 2\<rparr>,
              next_action = None\<rparr> 0 0 1 1 False = Inr self' \<and>
           Q self' = [[33 / 10, 0], [4, 1]]) \<and>
   (\<exists>self'. SARSA_update 0
             \<lparr>Q = [[2, 0], [4, 1]], alpha = constant_parameter (1 / 2),
              mdp_info = \<lparr>mdp_size = (2, 2), gamma = 9 / 10, action_space_n = 2\<rparr>,
              next_action = None\<rparr> 0 0 1 1 False = Inr self' \<and>
           Q self' = [[33 / 10, 0], [4, 1]]) \<and>
   (\<exists>self'. ExpectedSARSA_update [1, 0]
             \<lparr>Q = [[2, 0], [4, 1]], alpha = constant_parameter (1 / 2),
              mdp_info = \<lparr>mdp_size = (2, 2), gamma = 9 / 10, action_space_n = 2\<rparr>,
              next_action = None\<rparr> 0 0 1 1 False = Inr self' \<and>
           Q self' = [[33 / 10, 0], [4, 1]])"
  using residual_update_law
    [where self = "\<lparr>Q = [[2, 0], [4, 1]], alpha = constant_parameter (1 / 2),
              mdp_info = \<lparr>mdp_size = (2, 2), gamma = 9 / 10, action_space_n = 2\<rparr>,
              next_action = None\<rparr>"
       and state = 0 and action = 0 and q_before = 2 and a = "1 / 2" and target = "46 / 10"
       and reward = 1 and q_next = 4 and q_after = "33 / 10" and absorbing = False
       and next_state = 1 and drawn = 0 and probabilities = "[1, 0]"]
  by (simp add: lessThan_Suc numeral_2_eq_2)

subsection \<open>Speedy Q-Learning\<close>

lemma SpeedyQLearning_update_Inr_iff:
  "SpeedyQLearning_update self state action reward next_state absorbing = Inr self' \<longleftrightarrow>
     state < length (Q self) \<and> action < length (Q self ! state) \<and>
     (absorbing \<or> next_state < length (Q self) \<and> Q self ! next_state \<noteq> [] \<and>
        next_state < length (old_q self) \<and> old_q self ! next_state \<noteq> []) \<and>
     self' = self\<lparr>Q := (Q self)[state := (Q self ! state)[action :=
                Q self ! state ! action +
                fst (call (alpha self) state action None None) *
                (reward + gamma (mdp_info self) *
                   (if absorbing then 0 else Max (set (old_q self ! next_state))) -
                 Q self ! state ! action) +
                (1 - fst (call (alpha self) state action None None)) *
                (reward + gamma (mdp_info self) *
                   (if absorbing then 0 else Max (set (Q self ! next_state))) -
                 (reward + gamma (mdp_info self) *
                   (if absorbing then 0 else Max (set (old_q self ! next_state)))))]],
              alpha := snd (call (alpha self) state action None None),
              old_q := Q self\<rparr>"
  by (auto simp: SpeedyQLearning_update_def and_then_Inr_iff getitem_Inr_iff getrow_Inr_iff
      setitem_Inr_iff np_max_Inr_iff Let_def split: prod.splits)

text \<open>
  C3. In Speedy Q-Learning an update on valid indices returns and writes \<open>Q(s, a) = q_cur +
  alpha * (target_old - q_cur) + (1 - alpha) * (target_cur - target_old)\<close>, where
  \<open>target_old\<close> is the max-bootstrap target of the previous store and \<open>target_cur\<close> that of
  the current store (the bootstrap is 0 when absorbing); no other entry changes, and the
  previous store becomes the current store as it was before the update.
\<close>

theorem SpeedyQLearning_update_law:
  assumes "state < length (Q self)" and "action < length (Q self ! state)"
    and "absorbing \<or> next_state < length (Q self) \<and> Q self ! next_state \<noteq> [] \<and>
           next_state < length (old_q self) \<and> old_q self ! next_state \<noteq> []"
    and "q_cur = Q self ! state ! action"
    and "a = fst (call (alpha self) state action None None)"
    and "target_cur = reward + gamma (mdp_info self) *
           (if absorbing then 0 else Max (set (Q self ! next_state)))"
    and "target_old = reward + gamma (mdp_info self) *
           (if absorbing then 0 else Max (set (old_q self ! next_state)))"
  shows "\<exists>self'. SpeedyQLearning_update self state action reward next_state absorbing = Inr self' \<and>
           Q self' = (Q self)[state := (Q self ! state)[action :=
              q_cur + a * (target_old - q_cur) + (1 - a) * (target_cur - target_old)]] \<and>
           old_q self' = Q self"
  using assms by (simp add: SpeedyQLearning_update_Inr_iff)

theorem SpeedyQLearning_update_law_witness:
  "\<exists>self'. SpeedyQLearning_update
            \<lparr>Q = [[2, 0], [4, 1]], alpha = constant_parameter (1 / 4),
             mdp_info = \<lparr>mdp_size = (2, 2), gamma = 1 / 2, action_space_n = 2\<rparr>,
             next_action = None, old_q = [[1, 0], [2, 3]]\<rparr> 0 0 1 1 False = Inr self' \<and>
          Q self' = [[5 / 2, 0], [4, 1]] \<and> old_q self' = [[2, 0], [4, 1]]"
  using SpeedyQLearning_update_law
    [where self = "\<lparr>Q = [[2, 0], [4, 1]], alpha = constant_parameter (1 / 4),
             mdp_info = \<lparr>mdp_size = (2, 2), gamma = 1 / 2, action_space_n = 2\<rparr>,
             next_action = None, old_q = [[1, 0], [2, 3]]\<rparr>"
       and state = 0 and action = 0 and absorbing = False and next_state = 1
       and q_cur = 2 and a = "1 / 4" and reward = 1 and target_cur = 3
       and target_old = "5 / 2"]
  by simp

subsection \<open>R-Learning\<close>

lemma RLearning_update_Inr_iff:
  "RLearning_update self state action reward next_state absorbing = Inr self' \<longleftrightarrow>
     state < length (Q self) \<and> action < length (Q self ! state) \<and>
     (absorbing \<or> next_state < length (Q self) \<and> Q self ! next_state \<noteq> []) \<and>
     (let q_current = Q self ! state ! action;
          q_next = (if absorbing then 0 else Max (set (Q self ! next_state)));
          q_new = q_current + fst (call (alpha self) state action None None) *
                    (reward - p_rho self + q_next - q_current);
          q_max = Max (set ((Q self ! state)[action := q_new]));
          self1 = self\<lparr>Q := (Q self)[state := (Q self ! state)[action := q_new]],
                       alpha := snd (call (alpha self) state action None None)\<rparr>
      in self' = (if q_new = q_max
                  then self1\<lparr>p_rho := p_rho self +
                                fst (call (RLearning.beta self) state action None None) *
                                (reward + q_next - q_max - p_rho self),
                              RLearning.beta :=
                                snd (call (RLearning.beta self) state action None None)\<rparr>
                  else self1))"
  by (auto simp: RLearning_update_def and_then_Inr_iff getitem_Inr_iff getrow_Inr_iff
      setitem_Inr_iff np_max_Inr_iff Let_def split: prod.splits)


text \<open>
  C6. In R-Learning an update on valid indices returns; after the residual update of
  \<open>Q(s, a)\<close>, the estimate \<open>rho\<close> becomes \<open>rho + beta(s, a) * (reward + q_next - q_max -
  rho)\<close> if the value just written equals the maximum of the row of \<open>s\<close>, and only then;
  otherwise \<open>rho\<close> and the schedule \<open>beta\<close> are exactly as before the call.
\<close>

theorem RLearning_rho_update:
  assumes "state < length (Q self)" and "action < length (Q self ! state)"
    and "absorbing \<or> next_state < length (Q self) \<and> Q self ! next_state \<noteq> []"
    and "q_current = Q self ! state ! action"
    and "q_next = (if absorbing then 0 else Max (set (Q self ! next_state)))"
    and "q_new = q_current + fst (call (alpha self) state action None None) *
                   (reward - p_rho self + q_next - q_current)"
    and "q_max = Max (set ((Q self ! state)[action := q_new]))"
  shows "\<exists>self'. RLearning_update self state action reward next_state absorbing = Inr self' \<and>
           Q self' = (Q self)[state := (Q self ! state)[action := q_new]] \<and>
           (q_new = q_max \<longrightarrow>
              p_rho self' = p_rho self +
                fst (call (RLearning.beta self) state action None None) *
                (reward + q_next - q_max - p_rho self) \<and>
              RLearning.beta self' = snd (call (RLearning.beta self) state action None None)) \<and>
           (q_new \<noteq> q_max \<longrightarrow>
              p_rho self' = p_rho self \<and> RLearning.beta self' = RLearning.beta self)"
  using assms by (simp add: RLearning_update_Inr_iff Let_def)

text \<open>
  The scenario of the specification: one state, two actions, \<open>Q = [0, 0]\<close>, \<open>beta = 0.1\<close>.
  The update of action 0 with reward 1 makes it the maximum and moves \<open>rho\<close>; the
  following update of action 1 does not reach the maximum and leaves \<open>rho\<close>.
\<close>

theorem RLearning_rho_update_witness:
  "(\<exists>self'. RLearning_update
             \<lparr>Q = [[0, 0]], alpha = constant_parameter (1 / 2),
              mdp_info = \<lparr>mdp_size = (1, 2), gamma = 1, action_space_n = 2\<rparr>,
              next_action = None, p_rho = 0, beta = constant_parameter (1 / 10)\<rparr>
             0 0 1 0 False = Inr self' \<and>
           Q self' = [[1 / 2, 0]] \<and> p_rho self' = 1 / 20) \<and>
   (\<exists>self'. RLearning_update
             \<lparr>Q = [[1 / 2, 0]], alpha = constant_parameter (1 / 2),
              mdp_info = \<lparr>mdp_size = (1, 2), gamma = 1, action_space_n = 2\<rparr>,
              next_action = None, p_rho = 1 / 20, beta = constant_parameter (1 / 10)\<rparr>
             0 1 0 0 False = Inr self' \<and>
           Q self' = [[1 / 2, 9 / 40]] \<and> p_rho self' = 1 / 20)"
  using RLearning_rho_update
    [where self = "\<lparr>Q = [[0, 0]], alpha = constant_parameter (1 / 2),
              mdp_info = \<lparr>mdp_size = (1, 2), gamma = 1, action_space_n = 2\<rparr>,
              next_action = None, p_rho = 0, beta = constant_parameter (1 / 10)\<rparr>"
       and state = 0 and action = 0 and absorbing = False and next_state = 0
       and reward = 1 and q_current = 0 and q_next = 0 and q_new = "1 / 2"
       and q_max = "1 / 2"]
    RLearning_rho_update
    [where self = "\<lparr>Q = [[1 / 2, 0]], alpha = constant_parameter (1 / 2),
              mdp_info = \<lparr>mdp_size = (1, 2), gamma = 1, action_space_n = 2\<rparr>,
              next_action = None, p_rho = 1 / 20, beta = constant_parameter (1 / 10)\<rparr>"
       and state = 0 and action = 1 and absorbing = False and next_state = 0
       and reward = 0 and q_current = 0 and q_next = "1 / 2" and q_new = "9 / 40"
       and q_max = "1 / 2"]
  by simp blast

subsection \<open>RQ-Learning\<close>

text \<open>
  C8. The constructor of RQ-Learning raises \<^verbatim>\<open>ValueError\<close> when both \<open>beta\<close> and \<open>delta\<close>
  are given and when neither is; no agent exists then, so no update runs. With exactly one
  of the two it returns the agent, with zero tables.
\<close>

theorem RQLearning_configuration_guard:
  "((beta0 \<noteq> None \<and> delta0 \<noteq> None) \<or> (beta0 = None \<and> delta0 = None) \<longrightarrow>
      RQLearning_init info learning_rate off_policy0 beta0 delta0 = Inl ValueError) \<and>
   ((beta0 \<noteq> None \<and> delta0 = None) \<or> (beta0 = None \<and> delta0 \<noteq> None) \<longrightarrow>
      RQLearning_init info learning_rate off_policy0 beta0 delta0 =
        Inr \<lparr>Q = Table (mdp_size info) 0, alpha = learning_rate, mdp_info = info,
             next_action = None, off_policy = off_policy0, delta = delta0, beta = beta0,
             Q_tilde = Table (mdp_size info) 0, R_tilde = Table (mdp_size info) 0\<rparr>)"
  by (auto simp: RQLearning_init_def)

theorem RQLearning_configuration_guard_witness:
  "RQLearning_init \<lparr>mdp_size = (1, 2), gamma = 1 / 2, action_space_n = 2\<rparr>
     (constant_parameter (1 / 2)) False
     (Some (constant_parameter (1 / 3))) (Some (constant_parameter (1 / 4))) = Inl ValueError \<and>
   RQLearning_init \<lparr>mdp_size = (1, 2), gamma = 1 / 2, action_space_n = 2\<rparr>
     (constant_parameter (1 / 2)) False None None = Inl ValueError \<and>
   RQLearning_init \<lparr>mdp_size = (1, 2), gamma = 1 / 2, action_space_n = 2\<rparr>
     (constant_parameter (1 / 2)) False (Some (constant_parameter (1 / 3))) None =
     Inr \<lparr>Q = [[0, 0]], alpha = constant_parameter (1 / 2),
          mdp_info = \<lparr>mdp_size = (1, 2), gamma = 1 / 2, action_space_n = 2\<rparr>,
          next_action = None, off_policy = False, delta = None,
          beta = Some (constant_parameter (1 / 3)),
          Q_tilde = [[0, 0]], R_tilde = [[0, 0]]\<rparr> \<and>
   RQLearning_init \<lparr>mdp_size = (1, 2), gamma = 1 / 2, action_space_n = 2\<rparr>
     (constant_parameter (1 / 2)) True None (Some (constant_parameter (1 / 4))) =
     Inr \<lparr>Q = [[0, 0]], alpha = constant_parameter (1 / 2),
          mdp_info = \<lparr>mdp_size = (1, 2), gamma = 1 / 2, action_space_n = 2\<rparr>,
          next_action = None, off_policy = True,
          delta = Some (constant_parameter (1 / 4)), beta = None,
          Q_tilde = [[0, 0]], R_tilde = [[0, 0]]\<rparr>"
  using RQLearning_configuration_guard
    [where info = "\<lparr>mdp_size = (1, 2), gamma = 1 / 2, action_space_n = 2\<rparr>"
       and learning_rate = "constant_parameter (1 / 2)" and ?off_policy0.0 = False
       and ?beta0.0 = "Some (constant_parameter (1 / 3))"
       and ?delta0.0 = "Some (constant_parameter (1 / 4))"]
    RQLearning_configuration_guard
    [where info = "\<lparr>mdp_size = (1, 2), gamma = 1 / 2, action_space_n = 2\<rparr>"
       and learning_rate = "constant_parameter (1 / 2)" and ?off_policy0.0 = False
       and ?beta0.0 = None and ?delta0.0 = None]
    RQLearning_configuration_guard
    [where info = "\<lparr>mdp_size = (1, 2), gamma = 1 / 2, action_space_n = 2\<rparr>"
       and learning_rate = "constant_parameter (1 / 2)" and ?off_policy0.0 = False
       and ?beta0.0 = "Some (constant_parameter (1 / 3))" and ?delta0.0 = None]
    RQLearning_configuration_guard
    [where info = "\<lparr>mdp_size = (1, 2), gamma = 1 / 2, action_space_n = 2\<rparr>"
       and learning_rate = "constant_parameter (1 / 2)" and ?off_policy0.0 = True
       and ?beta0.0 = None and ?delta0.0 = "Some (constant_parameter (1 / 4))"]
  by (simp add: Table_def numeral_2_eq_2)

subsection \<open>The tables of RQ-Learning\<close>

lemma RQLearning_next_q_Inr:
  assumes "RQLearning_next_q drawn self next_state = Inr (q, self')"
  shows "self' = (if off_policy self then self else self\<lparr>next_action := Some drawn\<rparr>)"
  using assms
  by (auto simp: RQLearning_next_q_def and_then_Inr_iff Let_def split: if_splits)

lemma RQLearning_beta_value_Inr:
  assumes "RQLearning_beta_value a q_next self state action = Inr (b, self')"
  shows "Q self' = Q self \<and> Q_tilde self' = Q_tilde self \<and> R_tilde self' = R_tilde self \<and>
         mdp_info self' = mdp_info self"
  using assms
  by (auto simp: RQLearning_beta_value_def split: option.splits prod.splits)

lemma RQLearning_update_not_absorbing_Inr:
  assumes "RQLearning_update_not_absorbing drawn a self state action next_state = Inr self'"
  shows "\<exists>v_q. state < length (Q_tilde self) \<and> action < length (Q_tilde self ! state) \<and>
           Q_tilde self' = (Q_tilde self)[state := (Q_tilde self ! state)[action := v_q]] \<and>
           Q self' = Q self \<and> R_tilde self' = R_tilde self \<and> mdp_info self' = mdp_info self"
proof -
  from assms obtain q_next self2 beta_value self3 where
    nq: "RQLearning_next_q drawn self next_state = Inr (q_next, self2)" and
    bv: "RQLearning_beta_value a q_next self2 state action = Inr (beta_value, self3)" and
    st: "state < length (Q_tilde self3)" "action < length (Q_tilde self3 ! state)" and
    res: "self' = self3\<lparr>Q_tilde := (Q_tilde self3)[state := (Q_tilde self3 ! state)[action :=
            Q_tilde self3 ! state ! action +
            beta_value * (q_next - Q_tilde self3 ! state ! action)]]\<rparr>"
    unfolding RQLearning_update_not_absorbing_def
    by (auto simp: and_then_Inr_iff getitem_Inr_iff setitem_Inr_iff)
  from nq have s2: "Q self2 = Q self" "Q_tilde self2 = Q_tilde self"
    "R_tilde self2 = R_tilde self" "mdp_info self2 = mdp_info self"
    by (auto dest!: RQLearning_next_q_Inr split: if_splits)
  from bv have s3: "Q self3 = Q self2" "Q_tilde self3 = Q_tilde self2"
    "R_tilde self3 = R_tilde self2" "mdp_info self3 = mdp_info self2"
    by (auto dest: RQLearning_beta_value_Inr)
  show ?thesis
    using st res s2 s3 by auto
qed

lemma RQLearning_update_Inr:
  assumes "RQLearning_update drawn self state action reward next_state absorbing = Inr self'"
  shows "\<exists>v_r v_q.
           state < length (R_tilde self) \<and> action < length (R_tilde self ! state) \<and>
           state < length (Q_tilde self) \<and> action < length (Q_tilde self ! state) \<and>
           state < length (Q self) \<and> action < length (Q self ! state) \<and>
           R_tilde self' = (R_tilde self)[state := (R_tilde self ! state)[action := v_r]] \<and>
           Q_tilde self' = (Q_tilde self)[state := (Q_tilde self ! state)[action := v_q]] \<and>
           Q self' = (Q self)[state := (Q self ! state)[action :=
                        v_r + gamma (mdp_info self) * v_q]] \<and>
           mdp_info self' = mdp_info self \<and>
           v_r = R_tilde self ! state ! action +
                 fst (call (alpha self) state action (Some reward) None) *
                 (reward - R_tilde self ! state ! action) \<and>
           (absorbing \<longrightarrow> v_q = Q_tilde self ! state ! action)"
proof -
  obtain a alpha' where c: "call (alpha self) state action (Some reward) None = (a, alpha')"
    by (cases "call (alpha self) state action (Some reward) None")
  define v_r where "v_r = R_tilde self ! state ! action +
    a * (reward - R_tilde self ! state ! action)"
  define self1 where "self1 = self\<lparr>alpha := alpha',
    R_tilde := (R_tilde self)[state := (R_tilde self ! state)[action := v_r]]\<rparr>"
  from assms c obtain self4 where
    rt: "state < length (R_tilde self)" "action < length (R_tilde self ! state)" and
    blk: "(if \<not> absorbing
           then RQLearning_update_not_absorbing drawn a self1 state action next_state
           else Inr self1) = Inr self4" and
    r4: "state < length (R_tilde self4)" "action < length (R_tilde self4 ! state)" and
    q4: "state < length (Q_tilde self4)" "action < length (Q_tilde self4 ! state)" and
    qq: "state < length (Q self4)" "action < length (Q self4 ! state)" and
    res: "self' = self4\<lparr>Q := (Q self4)[state := (Q self4 ! state)[action :=
            R_tilde self4 ! state ! action +
            gamma (mdp_info self4) * Q_tilde self4 ! state ! action]]\<rparr>"
    unfolding RQLearning_update_def self1_def v_r_def
    by (auto simp: and_then_Inr_iff getitem_Inr_iff setitem_Inr_iff Let_def)
  have "\<exists>v_q. state < length (Q_tilde self1) \<and> action < length (Q_tilde self1 ! state) \<and>
           Q_tilde self4 = (Q_tilde self1)[state := (Q_tilde self1 ! state)[action := v_q]] \<and>
           Q self4 = Q self1 \<and> R_tilde self4 = R_tilde self1 \<and>
           mdp_info self4 = mdp_info self1 \<and>
           (absorbing \<longrightarrow> v_q = Q_tilde self1 ! state ! action)"
  proof (cases absorbing)
    case True
    with blk have "self4 = self1" by simp
    with q4 True show ?thesis
      by (intro exI [of _ "Q_tilde self1 ! state ! action"]) simp
  next
    case False
    with blk have "RQLearning_update_not_absorbing drawn a self1 state action next_state =
      Inr self4" by simp
    from RQLearning_update_not_absorbing_Inr [OF this] False show ?thesis by auto
  qed
  then obtain v_q where
    v: "state < length (Q_tilde self1)" "action < length (Q_tilde self1 ! state)"
       "Q_tilde self4 = (Q_tilde self1)[state := (Q_tilde self1 ! state)[action := v_q]]"
       "Q self4 = Q self1" "R_tilde self4 = R_tilde self1" "mdp_info self4 = mdp_info self1"
       "absorbing \<longrightarrow> v_q = Q_tilde self1 ! state ! action"
    by blast
  have s1: "Q self1 = Q self" "Q_tilde self1 = Q_tilde self" "mdp_info self1 = mdp_info self"
    "R_tilde self1 = (R_tilde self)[state := (R_tilde self ! state)[action := v_r]]"
    by (simp_all add: self1_def)
  show ?thesis
    using rt qq v s1 res c
    by (intro exI [of _ v_r] exI [of _ v_q]) (simp add: v_r_def)
qed


lemma combined_init:
  assumes "RQLearning_init info learning_rate off_policy0 beta0 delta0 = Inr self0"
  shows "combined self0"
proof -
  from assms have "Q self0 = Table (mdp_size info) 0 \<and> Q_tilde self0 = Table (mdp_size info) 0
    \<and> R_tilde self0 = Table (mdp_size info) 0"
    by (auto simp: RQLearning_init_def and_then_Inr_iff split: if_splits)
  then show ?thesis
    by (simp add: combined_def Table_def)
qed

lemma combined_update:
  assumes inv: "combined self"
    and upd: "RQLearning_update drawn self state action reward next_state absorbing = Inr self'"
  shows "combined self'"
proof -
  from RQLearning_update_Inr [OF upd] obtain v_r v_q where
    rng: "state < length (R_tilde self)" "action < length (R_tilde self ! state)"
         "state < length (Q_tilde self)" "action < length (Q_tilde self ! state)"
         "state < length (Q self)" "action < length (Q self ! state)" and
    R: "R_tilde self' = (R_tilde self)[state := (R_tilde self ! state)[action := v_r]]" and
    T: "Q_tilde self' = (Q_tilde self)[state := (Q_tilde self ! state)[action := v_q]]" and
    C: "Q self' = (Q self)[state := (Q self ! state)[action :=
          v_r + gamma (mdp_info self) * v_q]]" and
    m: "mdp_info self' = mdp_info self"
    by blast
  show ?thesis
    unfolding combined_def
  proof (intro allI impI)
    fix s a
    assume s: "s < length (Q self')" and a: "a < length (Q self' ! s)"
    show "Q self' ! s ! a =
          R_tilde self' ! s ! a + gamma (mdp_info self') * Q_tilde self' ! s ! a"
    proof (cases "s = state")
      case True
      show ?thesis
      proof (cases "a = action")
        case True
        with \<open>s = state\<close> rng show ?thesis by (simp add: R T C m)
      next
        case False
        from s a \<open>s = state\<close> rng have "a < length (Q self ! state)"
          by (simp add: C)
        with inv rng have "Q self ! state ! a =
            R_tilde self ! state ! a + gamma (mdp_info self) * Q_tilde self ! state ! a"
          by (simp add: combined_def)
        with False \<open>s = state\<close> rng show ?thesis by (simp add: R T C m)
      qed
    next
      case False
      from s a False have "s < length (Q self)" "a < length (Q self ! s)"
        by (simp_all add: C)
      with inv have "Q self ! s ! a =
            R_tilde self ! s ! a + gamma (mdp_info self) * Q_tilde self ! s ! a"
        by (simp add: combined_def)
      with False show ?thesis by (simp add: R T C m)
    qed
  qed
qed

lemma fit_Inr_iff:
  "fit update self dataset = Inr self' \<longleftrightarrow>
     (\<exists>state action reward next_state absorbing.
        dataset = [(state, action, reward, next_state, absorbing)] \<and>
        update self state action reward next_state absorbing = Inr self')"
proof (cases dataset)
  case Nil
  then show ?thesis by (simp add: fit_def)
next
  case (Cons x xs)
  obtain s a r s' ab where x: "x = (s, a, r, s', ab)" by (cases x)
  show ?thesis
    using Cons x by (cases xs) (auto simp: fit_def parse_def)
qed

lemma combined_fit_all:
  assumes "combined self" and "RQLearning_fit_all steps self = Inr self'"
  shows "combined self'"
  using assms
proof (induction steps arbitrary: self)
  case Nil
  then show ?case by simp
next
  case (Cons step steps)
  obtain drawn transition where step: "step = (drawn, transition)" by (cases step)
  from Cons.prems(2) step obtain self1 where
    f: "fit (RQLearning_update drawn) self [transition] = Inr self1" and
    r: "RQLearning_fit_all steps self1 = Inr self'"
    by (auto simp: and_then_Inr_iff)
  from f have "combined self1"
    using Cons.prems(1) by (auto simp: fit_Inr_iff dest: combined_update)
  then show ?case using r by (rule Cons.IH)
qed

text \<open>
  C10. RQ-Learning keeps \<open>Q[s, a] = R_tilde[s, a] + gamma * Q_tilde[s, a]\<close> at every pair:
  the tables are all zero at construction, every completed update writes one entry of
  each table, at the updated pair, so that the identity holds there whether the transition
  is absorbing or not, and leaves every other entry of the three tables as it was; so the
  identity holds after every sequence of completed updates.
\<close>

theorem RQLearning_combined_invariant:
  "(RQLearning_init info learning_rate off_policy0 beta0 delta0 = Inr self0 \<longrightarrow>
      Q self0 = Table (mdp_size info) 0 \<and> Q_tilde self0 = Table (mdp_size info) 0 \<and>
      R_tilde self0 = Table (mdp_size info) 0 \<and> combined self0) \<and>
   (RQLearning_update drawn self state action reward next_state absorbing = Inr self' \<longrightarrow>
      (\<exists>v_r v_q.
         R_tilde self' = (R_tilde self)[state := (R_tilde self ! state)[action := v_r]] \<and>
         Q_tilde self' = (Q_tilde self)[state := (Q_tilde self ! state)[action := v_q]] \<and>
         Q self' = (Q self)[state := (Q self ! state)[action :=
                      v_r + gamma (mdp_info self') * v_q]] \<and>
         R_tilde self' ! state ! action = v_r \<and> Q_tilde self' ! state ! action = v_q \<and>
         Q self' ! state ! action = v_r + gamma (mdp_info self') * v_q) \<and>
      (combined self \<longrightarrow> combined self')) \<and>
   (RQLearning_init info learning_rate off_policy0 beta0 delta0 = Inr self0 \<and>
    RQLearning_fit_all steps self0 = Inr self_n \<longrightarrow> combined self_n)"
proof (intro conjI impI)
  assume i: "RQLearning_init info learning_rate off_policy0 beta0 delta0 = Inr self0"
  then show "Q self0 = Table (mdp_size info) 0" "Q_tilde self0 = Table (mdp_size info) 0"
    "R_tilde self0 = Table (mdp_size info) 0"
    by (auto simp: RQLearning_init_def and_then_Inr_iff split: if_splits)
  from i show "combined self0" by (rule combined_init)
next
  assume u: "RQLearning_update drawn self state action reward next_state absorbing = Inr self'"
  from RQLearning_update_Inr [OF u] obtain v_r v_q where
    rng: "state < length (R_tilde self)" "action < length (R_tilde self ! state)"
         "state < length (Q_tilde self)" "action < length (Q_tilde self ! state)"
         "state < length (Q self)" "action < length (Q self ! state)" and
    R: "R_tilde self' = (R_tilde self)[state := (R_tilde self ! state)[action := v_r]]" and
    T: "Q_tilde self' = (Q_tilde self)[state := (Q_tilde self ! state)[action := v_q]]" and
    C: "Q self' = (Q self)[state := (Q self ! state)[action :=
          v_r + gamma (mdp_info self) * v_q]]" and
    m: "mdp_info self' = mdp_info self"
    by blast
  show "\<exists>v_r v_q.
         R_tilde self' = (R_tilde self)[state := (R_tilde self ! state)[action := v_r]] \<and>
         Q_tilde self' = (Q_tilde self)[state := (Q_tilde self ! state)[action := v_q]] \<and>
         Q self' = (Q self)[state := (Q self ! state)[action :=
                      v_r + gamma (mdp_info self') * v_q]] \<and>
         R_tilde self' ! state ! action = v_r \<and> Q_tilde self' ! state ! action = v_q \<and>
         Q self' ! state ! action = v_r + gamma (mdp_info self') * v_q"
    using rng by (intro exI [of _ v_r] exI [of _ v_q]) (simp add: R T C m)
next
  assume "RQLearning_update drawn self state action reward next_state absorbing = Inr self'"
    and "combined self"
  then show "combined self'" by (rule combined_update [rotated])
next
  assume "RQLearning_init info learning_rate off_policy0 beta0 delta0 = Inr self0 \<and>
    RQLearning_fit_all steps self0 = Inr self_n"
  then show "combined self_n"
    by (auto dest: combined_init combined_fit_all)
qed


theorem RQLearning_combined_invariant_witness:
  "RQLearning_init \<lparr>mdp_size = (1, 2), gamma = 1 / 2, action_space_n = 2\<rparr>
     (constant_parameter (1 / 2)) True (Some (constant_parameter (1 / 4))) None =
     Inr \<lparr>Q = [[0, 0]], alpha = constant_parameter (1 / 2),
          mdp_info = \<lparr>mdp_size = (1, 2), gamma = 1 / 2, action_space_n = 2\<rparr>,
          next_action = None, off_policy = True, delta = None,
          beta = Some (constant_parameter (1 / 4)),
          Q_tilde = [[0, 0]], R_tilde = [[0, 0]]\<rparr> \<and>
   RQLearning_fit_all
     [(0, (0, 0, 1, 0, False)), (0, (0, 1, 2, 0, False)), (0, (0, 1, 0, 0, True))]
     \<lparr>Q = [[0, 0]], alpha = constant_parameter (1 / 2),
      mdp_info = \<lparr>mdp_size = (1, 2), gamma = 1 / 2, action_space_n = 2\<rparr>,
      next_action = None, off_policy = True, delta = None,
      beta = Some (constant_parameter (1 / 4)),
      Q_tilde = [[0, 0]], R_tilde = [[0, 0]]\<rparr> =
     Inr \<lparr>Q = [[1 / 2, 9 / 16]], alpha = constant_parameter (1 / 2),
          mdp_info = \<lparr>mdp_size = (1, 2), gamma = 1 / 2, action_space_n = 2\<rparr>,
          next_action = None, off_policy = True, delta = None,
          beta = Some (constant_parameter (1 / 4)),
          Q_tilde = [[0, 1 / 8]], R_tilde = [[1 / 2, 1 / 2]]\<rparr> \<and>
   combined \<lparr>Q = [[1 / 2, 9 / 16]], alpha = constant_parameter (1 / 2),
          mdp_info = \<lparr>mdp_size = (1, 2), gamma = 1 / 2, action_space_n = 2\<rparr>,
          next_action = None, off_policy = True, delta = None,
          beta = Some (constant_parameter (1 / 4)),
          Q_tilde = [[0, 1 / 8]], R_tilde = [[1 / 2, 1 / 2]]\<rparr> \<and>
   combined (example_RQLearning (constant_parameter 1)) \<and>
   (\<exists>self'. RQLearning_update 0 (example_RQLearning (constant_parameter 1)) 0 0 1 0 False
      = Inr self' \<and> Q self' = [[7 / 4], [0]] \<and> Q_tilde self' = [[3 / 2], [0]] \<and>
      R_tilde self' = [[1], [0]] \<and> combined self')"
proof -
  have i: "RQLearning_init \<lparr>mdp_size = (1, 2), gamma = 1 / 2, action_space_n = 2\<rparr>
     (constant_parameter (1 / 2)) True (Some (constant_parameter (1 / 4))) None =
     Inr \<lparr>Q = [[0, 0]], alpha = constant_parameter (1 / 2),
          mdp_info = \<lparr>mdp_size = (1, 2), gamma = 1 / 2, action_space_n = 2\<rparr>,
          next_action = None, off_policy = True, delta = None,
          beta = Some (constant_parameter (1 / 4)),
          Q_tilde = [[0, 0]], R_tilde = [[0, 0]]\<rparr>"
    by (simp add: RQLearning_init_def Table_def numeral_2_eq_2)
  have r: "RQLearning_fit_all
     [(0, (0, 0, 1, 0, False)), (0, (0, 1, 2, 0, False)), (0, (0, 1, 0, 0, True))]
     \<lparr>Q = [[0, 0]], alpha = constant_parameter (1 / 2),
      mdp_info = \<lparr>mdp_size = (1, 2), gamma = 1 / 2, action_space_n = 2\<rparr>,
      next_action = None, off_policy = True, delta = None,
      beta = Some (constant_parameter (1 / 4)),
      Q_tilde = [[0, 0]], R_tilde = [[0, 0]]\<rparr> =
     Inr \<lparr>Q = [[1 / 2, 9 / 16]], alpha = constant_parameter (1 / 2),
          mdp_info = \<lparr>mdp_size = (1, 2), gamma = 1 / 2, action_space_n = 2\<rparr>,
          next_action = None, off_policy = True, delta = None,
          beta = Some (constant_parameter (1 / 4)),
          Q_tilde = [[0, 1 / 8]], R_tilde = [[1 / 2, 1 / 2]]\<rparr>"
    by (simp add: fit_def parse_def RQLearning_update_def RQLearning_update_not_absorbing_def
        RQLearning_next_q_def RQLearning_beta_value_def getitem_def setitem_def getrow_def)
  from i r RQLearning_combined_invariant
    [where info = "\<lparr>mdp_size = (1, 2), gamma = 1 / 2, action_space_n = 2\<rparr>"
       and learning_rate = "constant_parameter (1 / 2)" and ?off_policy0.0 = True
       and ?beta0.0 = "Some (constant_parameter (1 / 4))" and ?delta0.0 = None
       and steps = "[(0, (0, 0, 1, 0, False)), (0, (0, 1, 2, 0, False)),
                     (0, (0, 1, 0, 0, True))]"
       and ?self0.0 = "\<lparr>Q = [[0, 0]], alpha = constant_parameter (1 / 2),
          mdp_info = \<lparr>mdp_size = (1, 2), gamma = 1 / 2, action_space_n = 2\<rparr>,
          next_action = None, off_policy = True, delta = None,
          beta = Some (constant_parameter (1 / 4)),
          Q_tilde = [[0, 0]], R_tilde = [[0, 0]]\<rparr>"
       and self_n = "\<lparr>Q = [[1 / 2, 9 / 16]], alpha = constant_parameter (1 / 2),
          mdp_info = \<lparr>mdp_size = (1, 2), gamma = 1 / 2, action_space_n = 2\<rparr>,
          next_action = None, off_policy = True, delta = None,
          beta = Some (constant_parameter (1 / 4)),
          Q_tilde = [[0, 1 / 8]], R_tilde = [[1 / 2, 1 / 2]]\<rparr>"]
  have 1: "combined \<lparr>Q = [[1 / 2, 9 / 16]], alpha = constant_parameter (1 / 2),
          mdp_info = \<lparr>mdp_size = (1, 2), gamma = 1 / 2, action_space_n = 2\<rparr>,
          next_action = None, off_policy = True, delta = None,
          beta = Some (constant_parameter (1 / 4)),
          Q_tilde = [[0, 1 / 8]], R_tilde = [[1 / 2, 1 / 2]]\<rparr>"
    by blast
  have inv: "combined (example_RQLearning (constant_parameter 1))"
    by (simp add: combined_def example_RQLearning_def less_Suc_eq numeral_2_eq_2)
  obtain c where u: "RQLearning_update 0 (example_RQLearning (constant_parameter 1)) 0 0 1 0
      False = Inr c"
    by (simp add: example_RQLearning_def RQLearning_update_def
        RQLearning_update_not_absorbing_def RQLearning_next_q_def RQLearning_beta_value_def
        getitem_def setitem_def getrow_def)
  from u inv RQLearning_combined_invariant
    [where self = "example_RQLearning (constant_parameter 1)" and self' = c and drawn = 0
       and state = 0 and action = 0 and reward = 1 and next_state = 0 and absorbing = False]
  have 2: "combined c" by blast
  from u have 3: "Q c = [[7 / 4], [0]]" "Q_tilde c = [[3 / 2], [0]]" "R_tilde c = [[1], [0]]"
    by (auto simp: example_RQLearning_def RQLearning_update_def
        RQLearning_update_not_absorbing_def RQLearning_next_q_def RQLearning_beta_value_def
        getitem_def setitem_def getrow_def)
  from i r 1 inv u 2 3 show ?thesis by simp
qed

subsection \<open>Weighted Q-Learning\<close>

lemma WeightedQLearning_next_q_sigma:
  assumes "WeightedQLearning_next_q samples drawn self next_state = Inr (q, self')"
  shows "p_sigma self' = p_sigma self"
  using assms
  by (auto simp: WeightedQLearning_next_q_def and_then_Inr_iff Let_def split: if_splits)

lemma WeightedQLearning_update_statistics_sigma:
  assumes "WeightedQLearning_update_statistics target a self state action = Inr self'"
  shows "p_sigma self' = p_sigma self"
  using assms
  by (auto simp: WeightedQLearning_update_statistics_def and_then_Inr_iff)

lemma WeightedQLearning_update_sigma_Inr:
  assumes "WeightedQLearning_update_sigma self state action = Inr self'"
  shows "p_sigma self' = p_sigma self \<or>
         (\<exists>v. state < length (p_sigma self) \<and> action < length (p_sigma self ! state) \<and>
              p_sigma self' = (p_sigma self)[state := (p_sigma self ! state)[action :=
                sqrt (max v (1 / 10 ^ 10))]])"
  using assms
  by (auto simp: WeightedQLearning_update_sigma_def and_then_Inr_iff setitem_Inr_iff Let_def
      split: if_splits)

lemma WeightedQLearning_update_p_sigma:
  assumes "WeightedQLearning_update samples drawn self state action reward next_state absorbing
             = Inr self'"
  shows "p_sigma self' = p_sigma self \<or>
         (\<exists>v. state < length (p_sigma self) \<and> action < length (p_sigma self ! state) \<and>
              p_sigma self' = (p_sigma self)[state := (p_sigma self ! state)[action :=
                sqrt (max v (1 / 10 ^ 10))]])"
proof -
  from assms obtain q_next self1 a' alpha' Q' self2 target where
    nq: "(if \<not> absorbing then WeightedQLearning_next_q samples drawn self next_state
          else Inr (0, self)) = Inr (q_next, self1)" and
    st: "WeightedQLearning_update_statistics target a'
           (self1\<lparr>Q := Q', alpha := alpha'\<rparr>) state action = Inr self2" and
    sg: "WeightedQLearning_update_sigma self2 state action = Inr self'"
    unfolding WeightedQLearning_update_def
    by (fastforce simp: and_then_Inr_iff Let_def case_prod_beta)
  from nq have "p_sigma self1 = p_sigma self"
    by (auto dest: WeightedQLearning_next_q_sigma split: if_splits)
  moreover from st have "p_sigma self2 = p_sigma self1"
    by (auto dest: WeightedQLearning_update_statistics_sigma)
  ultimately show ?thesis
    using WeightedQLearning_update_sigma_Inr [OF sg] by simp
qed


lemma sigma_floor_init:
  "sigma_floor (WeightedQLearning_init info learning_rate sampling precision weighted_policy)"
proof -
  have "sqrt (1 / 10 ^ 10) \<le> (1 :: real)"
    by (simp only: real_sqrt_le_1_iff) simp
  also have "(1 :: real) \<le> 10 ^ 10"
    by simp
  finally show ?thesis
    by (auto simp: sigma_floor_def WeightedQLearning_init_def Table_def)
qed

lemma sigma_floor_update:
  assumes inv: "sigma_floor self"
    and upd: "WeightedQLearning_update samples drawn self state action reward next_state
                absorbing = Inr self'"
  shows "sigma_floor self'"
proof -
  from WeightedQLearning_update_p_sigma [OF upd]
  consider "p_sigma self' = p_sigma self"
    | v where "state < length (p_sigma self)" "action < length (p_sigma self ! state)"
        "p_sigma self' = (p_sigma self)[state := (p_sigma self ! state)[action :=
           sqrt (max v (1 / 10 ^ 10))]]"
    by blast
  then show ?thesis
  proof cases
    case 1
    with inv show ?thesis by (simp add: sigma_floor_def)
  next
    case 2
    have new: "sqrt (1 / 10 ^ 10) \<le> sqrt (max v (1 / 10 ^ 10))"
      by (rule real_sqrt_le_mono) simp
    have old_row: "\<forall>x \<in> set (p_sigma self ! state). sqrt (1 / 10 ^ 10) \<le> x"
      using inv 2(1) by (auto simp: sigma_floor_def)
    have row: "\<forall>x \<in> set ((p_sigma self ! state)[action := sqrt (max v (1 / 10 ^ 10))]).
                 sqrt (1 / 10 ^ 10) \<le> x"
    proof
      fix x
      assume "x \<in> set ((p_sigma self ! state)[action := sqrt (max v (1 / 10 ^ 10))])"
      then have "x = sqrt (max v (1 / 10 ^ 10)) \<or> x \<in> set (p_sigma self ! state)"
        using set_update_subset_insert by fastforce
      with new old_row show "sqrt (1 / 10 ^ 10) \<le> x" by auto
    qed
    show ?thesis
      unfolding sigma_floor_def
    proof
      fix r
      assume "r \<in> set (p_sigma self')"
      then have "r = (p_sigma self ! state)[action := sqrt (max v (1 / 10 ^ 10))] \<or>
                 r \<in> set (p_sigma self)"
        unfolding 2(3) using set_update_subset_insert by fastforce
      with row inv show "\<forall>x \<in> set r. sqrt (1 / 10 ^ 10) \<le> x"
        by (auto simp: sigma_floor_def)
    qed
  qed
qed

lemma sigma_floor_fit_all:
  assumes "sigma_floor self" and "WeightedQLearning_fit_all steps self = Inr self'"
  shows "sigma_floor self'"
  using assms
proof (induction steps arbitrary: self)
  case Nil
  then show ?case by simp
next
  case (Cons step steps)
  obtain samples drawn transition where step: "step = (samples, drawn, transition)"
    by (cases step)
  from Cons.prems(2) step obtain self1 where
    f: "fit (WeightedQLearning_update samples drawn) self [transition] = Inr self1" and
    r: "WeightedQLearning_fit_all steps self1 = Inr self'"
    by (auto simp: and_then_Inr_iff)
  from f have "sigma_floor self1"
    using Cons.prems(1) by (auto simp: fit_Inr_iff dest: sigma_floor_update)
  then show ?case using r by (rule Cons.IH)
qed

text \<open>
  C7. In Weighted Q-Learning no entry of the store \<^verbatim>\<open>_sigma\<close> is ever below the square root
  of \<^verbatim>\<open>1e-10\<close>: the entries start at \<^verbatim>\<open>1e10\<close>, a completed update leaves the store as it
  is or writes, at the updated pair, the square root of a variance estimator floored at
  \<^verbatim>\<open>1e-10\<close>, and so the bound holds after every sequence of completed updates, whatever
  the targets are.
\<close>

theorem WeightedQLearning_sigma_floor:
  "sigma_floor (WeightedQLearning_init info learning_rate sampling precision weighted_policy) \<and>
   (WeightedQLearning_update samples drawn self state action reward next_state absorbing
      = Inr self' \<longrightarrow>
      (p_sigma self' = p_sigma self \<or>
       (\<exists>v. p_sigma self' = (p_sigma self)[state := (p_sigma self ! state)[action :=
              sqrt (max v (1 / 10 ^ 10))]])) \<and>
      (sigma_floor self \<longrightarrow> sigma_floor self')) \<and>
   (WeightedQLearning_fit_all steps
      (WeightedQLearning_init info learning_rate sampling precision weighted_policy)
      = Inr self_n \<longrightarrow> sigma_floor self_n)"
proof (intro conjI impI)
  show "sigma_floor
          (WeightedQLearning_init info learning_rate sampling precision weighted_policy)"
    by (rule sigma_floor_init)
next
  assume "WeightedQLearning_update samples drawn self state action reward next_state absorbing
      = Inr self'"
  from WeightedQLearning_update_p_sigma [OF this]
  show "p_sigma self' = p_sigma self \<or>
       (\<exists>v. p_sigma self' = (p_sigma self)[state := (p_sigma self ! state)[action :=
              sqrt (max v (1 / 10 ^ 10))]])"
    by blast
next
  assume "WeightedQLearning_update samples drawn self state action reward next_state absorbing
      = Inr self'" and "sigma_floor self"
  then show "sigma_floor self'" by (rule sigma_floor_update [rotated])
next
  assume "WeightedQLearning_fit_all steps
      (WeightedQLearning_init info learning_rate sampling precision weighted_policy)
      = Inr self_n"
  with sigma_floor_init show "sigma_floor self_n" by (rule sigma_floor_fit_all)
qed

text \<open>
  Two updates of one pair with the same target: the variance is 0 and the entry of
  \<^verbatim>\<open>_sigma\<close> is the floor itself.
\<close>

theorem WeightedQLearning_sigma_floor_witness:
  "WeightedQLearning_fit_all [([], 0, (0, 0, 1, 0, True)), ([], 0, (0, 0, 1, 0, True))]
     (WeightedQLearning_init \<lparr>mdp_size = (1, 1), gamma = 1 / 2, action_space_n = 1\<rparr>
        (constant_parameter (1 / 2)) True 1000 False) =
     Inr \<lparr>Q = [[3 / 4]], alpha = constant_parameter (1 / 2),
          mdp_info = \<lparr>mdp_size = (1, 1), gamma = 1 / 2, action_space_n = 1\<rparr>,
          next_action = None, p_sampling = True, p_precision = 1000,
          p_n_updates = [[2]], p_sigma = [[sqrt (1 / 10 ^ 10)]], p_Q = [[1]], p_Q2 = [[1]],
          p_weights_var = [[5 / 16]], p_use_weighted_policy = False, p_w = None\<rparr> \<and>
   sigma_floor \<lparr>Q = [[3 / 4]], alpha = constant_parameter (1 / 2),
          mdp_info = \<lparr>mdp_size = (1, 1), gamma = 1 / 2, action_space_n = 1\<rparr>,
          next_action = None, p_sampling = True, p_precision = 1000,
          p_n_updates = [[2]], p_sigma = [[sqrt (1 / 10 ^ 10)]], p_Q = [[1]], p_Q2 = [[1]],
          p_weights_var = [[5 / 16]], p_use_weighted_policy = False, p_w = None\<rparr> \<and>
   (\<exists>self'. WeightedQLearning_update [] 0
      (WeightedQLearning_init \<lparr>mdp_size = (1, 1), gamma = 1 / 2, action_space_n = 1\<rparr>
         (constant_parameter (1 / 2)) True 1000 False) 0 0 1 0 True = Inr self' \<and>
      p_sigma self' = [[10 ^ 10]] \<and> sigma_floor self')"
proof -
  have r: "WeightedQLearning_fit_all
     [([], 0, (0, 0, 1, 0, True)), ([], 0, (0, 0, 1, 0, True))]
     (WeightedQLearning_init \<lparr>mdp_size = (1, 1), gamma = 1 / 2, action_space_n = 1\<rparr>
        (constant_parameter (1 / 2)) True 1000 False) =
     Inr \<lparr>Q = [[3 / 4]], alpha = constant_parameter (1 / 2),
          mdp_info = \<lparr>mdp_size = (1, 1), gamma = 1 / 2, action_space_n = 1\<rparr>,
          next_action = None, p_sampling = True, p_precision = 1000,
          p_n_updates = [[2]], p_sigma = [[sqrt (1 / 10 ^ 10)]], p_Q = [[1]], p_Q2 = [[1]],
          p_weights_var = [[5 / 16]], p_use_weighted_policy = False, p_w = None\<rparr>"
    by (simp add: WeightedQLearning_init_def Table_def fit_def parse_def
        WeightedQLearning_update_def WeightedQLearning_update_statistics_def
        WeightedQLearning_update_sigma_def getitem_def setitem_def power2_eq_square)
  from r WeightedQLearning_sigma_floor
    [where info = "\<lparr>mdp_size = (1, 1), gamma = 1 / 2, action_space_n = 1\<rparr>"
       and learning_rate = "constant_parameter (1 / 2)" and sampling = True
       and precision = 1000 and weighted_policy = False
       and steps = "[([], 0, (0, 0, 1, 0, True)), ([], 0, (0, 0, 1, 0, True))]"
       and self_n = "\<lparr>Q = [[3 / 4]], alpha = constant_parameter (1 / 2),
          mdp_info = \<lparr>mdp_size = (1, 1), gamma = 1 / 2, action_space_n = 1\<rparr>,
          next_action = None, p_sampling = True, p_precision = 1000,
          p_n_updates = [[2]], p_sigma = [[sqrt (1 / 10 ^ 10)]], p_Q = [[1]], p_Q2 = [[1]],
          p_weights_var = [[5 / 16]], p_use_weighted_policy = False, p_w = None\<rparr>"]
  have 1: "sigma_floor \<lparr>Q = [[3 / 4]], alpha = constant_parameter (1 / 2),
          mdp_info = \<lparr>mdp_size = (1, 1), gamma = 1 / 2, action_space_n = 1\<rparr>,
          next_action = None, p_sampling = True, p_precision = 1000,
          p_n_updates = [[2]], p_sigma = [[sqrt (1 / 10 ^ 10)]], p_Q = [[1]], p_Q2 = [[1]],
          p_weights_var = [[5 / 16]], p_use_weighted_policy = False, p_w = None\<rparr>"
    by blast
  obtain c where u: "WeightedQLearning_update [] 0
      (WeightedQLearning_init \<lparr>mdp_size = (1, 1), gamma = 1 / 2, action_space_n = 1\<rparr>
         (constant_parameter (1 / 2)) True 1000 False) 0 0 1 0 True = Inr c"
    by (simp add: WeightedQLearning_init_def Table_def WeightedQLearning_update_def
        WeightedQLearning_update_statistics_def WeightedQLearning_update_sigma_def
        getitem_def setitem_def)
  from u WeightedQLearning_sigma_floor
    [where info = "\<lparr>mdp_size = (1, 1), gamma = 1 / 2, action_space_n = 1\<rparr>"
       and learning_rate = "constant_parameter (1 / 2)" and sampling = True
       and precision = 1000 and weighted_policy = False
       and self = "WeightedQLearning_init
         \<lparr>mdp_size = (1, 1), gamma = 1 / 2, action_space_n = 1\<rparr>
         (constant_parameter (1 / 2)) True 1000 False"
       and self' = c and samples = "[]" and drawn = 0 and state = 0 and action = 0
       and reward = 1 and next_state = 0 and absorbing = True]
  have 2: "sigma_floor c" by blast
  from u have 3: "p_sigma c = [[10 ^ 10]]"
    by (auto simp: WeightedQLearning_init_def Table_def WeightedQLearning_update_def
        WeightedQLearning_update_statistics_def WeightedQLearning_update_sigma_def
        getitem_def setitem_def)
  from r 1 u 2 3 show ?thesis by simp
qed

subsection \<open>Double Q-Learning\<close>

lemma list_get_Inr_iff: "list_get xs i = Inr x \<longleftrightarrow> i < length xs \<and> x = xs ! i"
  by (auto simp: list_get_def)

lemma np_random_choice_Inr_iff:
  "np_random_choice k xs = Inr x \<longleftrightarrow> k < length xs \<and> x = xs ! k"
  by (auto simp: np_random_choice_def)

lemma set_argwhere_eq: "set (argwhere_eq q_ss m) = {i. i < length q_ss \<and> q_ss ! i = m}"
  by (auto simp: argwhere_eq_def)

lemma distinct_argwhere_eq: "distinct (argwhere_eq q_ss m)"
  by (simp add: argwhere_eq_def)

lemma argwhere_eq_Max_nonempty:
  assumes "q_ss \<noteq> []"
  shows "argwhere_eq q_ss (Max (set q_ss)) \<noteq> []"
proof -
  from assms have "Max (set q_ss) \<in> set q_ss" by (intro Max_in) simp_all
  then obtain i where "i < length q_ss" "q_ss ! i = Max (set q_ss)"
    by (auto simp: in_set_conv_nth)
  then have "i \<in> set (argwhere_eq q_ss (Max (set q_ss)))"
    by (simp add: set_argwhere_eq)
  then show ?thesis by auto
qed

lemma DoubleQLearning_update_Inr_iff:
  "DoubleQLearning_update u k self state action reward next_state absorbing = Inr self' \<longleftrightarrow>
     (let i = (if u < 1 / 2 then 0 else 1 :: nat);
          ties = argwhere_eq (Q self ! i ! next_state) (Max (set (Q self ! i ! next_state)))
      in i < length (Q self) \<and> state < length (Q self ! i) \<and>
         action < length (Q self ! i ! state) \<and>
         (absorbing \<or>
            next_state < length (Q self ! i) \<and> Q self ! i ! next_state \<noteq> [] \<and>
            k < length ties \<and> 1 - i < length (Q self) \<and>
            next_state < length (Q self ! (1 - i)) \<and>
            ties ! k < length (Q self ! (1 - i) ! next_state)) \<and>
         i < length (alpha self) \<and>
         self' = self\<lparr>Q := (Q self)[i := (Q self ! i)[state := (Q self ! i ! state)[action :=
                    Q self ! i ! state ! action +
                    fst (call (alpha self ! i) state action None None) *
                    (reward + gamma (mdp_info self) *
                       (if absorbing then 0 else Q self ! (1 - i) ! next_state ! (ties ! k)) -
                     Q self ! i ! state ! action)]]],
                  alpha := (alpha self)[i := snd (call (alpha self ! i) state action None None)]\<rparr>)"
  by (auto simp: DoubleQLearning_update_def and_then_Inr_iff getitem_Inr_iff getrow_Inr_iff
      setitem_Inr_iff np_max_Inr_iff list_get_Inr_iff np_random_choice_Inr_iff Let_def
      case_prod_beta)


text \<open>
  C2. In Double Q-Learning the constructor builds two zero tables and two clones of the
  learning rate. Every update selects the index \<open>i\<close> from the uniform draw \<open>u\<close>: 0 on the
  half of the unit interval below \<open>1/2\<close>, 1 on the other half. When the transition is not
  absorbing, \<open>a*\<close> is the element at the drawn position \<open>k\<close> of the list of all positions of
  the maximum of \<open>Q_i(next_state, .)\<close>, every such position is in this list exactly once
  (so that a uniform position is a uniform choice among the ties, and not the first
  index), and the bootstrap value is \<open>Q_{1-i}(next_state, a*)\<close>. The update writes only
  \<open>Q_i(state, action)\<close>, with the coefficient of the schedule \<open>alpha_i\<close>, and advances only
  this schedule: the other table and the other schedule are as before.
\<close>

theorem DoubleQLearning_update_law:
  assumes "i = (if u < 1 / 2 then 0 else 1 :: nat)"
    and "length (Q self) = 2" and "length (alpha self) = 2"
    and "state < length (Q self ! i)" and "action < length (Q self ! i ! state)"
    and "q_current = Q self ! i ! state ! action"
    and "a = fst (call (alpha self ! i) state action None None)"
    and "absorbing \<or> next_state < length (Q self ! i) \<and> q_ss = Q self ! i ! next_state \<and>
           q_ss \<noteq> [] \<and> ties = argwhere_eq q_ss (Max (set q_ss)) \<and> k < length ties \<and>
           a_star = ties ! k \<and> next_state < length (Q self ! (1 - i)) \<and>
           a_star < length (Q self ! (1 - i) ! next_state)"
    and "q_next = (if absorbing then 0 else Q self ! (1 - i) ! next_state ! a_star)"
  shows "DoubleQLearning_init info learning_rate =
           Inr \<lparr>Q = [Table (mdp_size info) 0, Table (mdp_size info) 0],
                alpha = [learning_rate, learning_rate], mdp_info = info,
                next_action = None\<rparr> \<and>
         {v. 0 \<le> v \<and> v < 1 \<and> (if v < 1 / 2 then 0 else 1 :: nat) = 0} = {0 ..< 1 / 2 :: real} \<and>
         {v. 0 \<le> v \<and> v < 1 \<and> (if v < 1 / 2 then 0 else 1 :: nat) = 1} = {1 / 2 ..< 1 :: real} \<and>
         (\<not> absorbing \<longrightarrow>
            set ties = {b. b < length q_ss \<and> q_ss ! b = Max (set q_ss)} \<and> distinct ties \<and>
            ties \<noteq> []) \<and>
         (\<exists>self'. DoubleQLearning_update u k self state action reward next_state absorbing
                    = Inr self' \<and>
            Q self' ! i = (Q self ! i)[state := (Q self ! i ! state)[action :=
               q_current + a * (reward + gamma (mdp_info self) * q_next - q_current)]] \<and>
            Q self' ! (1 - i) = Q self ! (1 - i) \<and> length (Q self') = 2 \<and>
            alpha self' ! i = snd (call (alpha self ! i) state action None None) \<and>
            alpha self' ! (1 - i) = alpha self ! (1 - i) \<and> length (alpha self') = 2)"
proof (intro conjI)
  show "DoubleQLearning_init info learning_rate =
           Inr \<lparr>Q = [Table (mdp_size info) 0, Table (mdp_size info) 0],
                alpha = [learning_rate, learning_rate], mdp_info = info, next_action = None\<rparr>"
    by (simp add: DoubleQLearning_init_def EnsembleTable_def numeral_2_eq_2)
  show "{v. 0 \<le> v \<and> v < 1 \<and> (if v < 1 / 2 then 0 else 1 :: nat) = 0} = {0 ..< 1 / 2 :: real}"
    by auto
  show "{v. 0 \<le> v \<and> v < 1 \<and> (if v < 1 / 2 then 0 else 1 :: nat) = 1} = {1 / 2 ..< 1 :: real}"
    by auto
  show "\<not> absorbing \<longrightarrow>
           set ties = {b. b < length q_ss \<and> q_ss ! b = Max (set q_ss)} \<and> distinct ties \<and>
           ties \<noteq> []"
    using assms(8)
    by (auto simp: set_argwhere_eq distinct_argwhere_eq argwhere_eq_Max_nonempty)
  show "\<exists>self'. DoubleQLearning_update u k self state action reward next_state absorbing
                    = Inr self' \<and>
           Q self' ! i = (Q self ! i)[state := (Q self ! i ! state)[action :=
              q_current + a * (reward + gamma (mdp_info self) * q_next - q_current)]] \<and>
           Q self' ! (1 - i) = Q self ! (1 - i) \<and> length (Q self') = 2 \<and>
           alpha self' ! i = snd (call (alpha self ! i) state action None None) \<and>
           alpha self' ! (1 - i) = alpha self ! (1 - i) \<and> length (alpha self') = 2"
  proof (cases "u < 1 / 2")
    case True
    with assms have "i = 0" by simp
    with assms True show ?thesis
      by (cases absorbing) (auto simp: DoubleQLearning_update_Inr_iff Let_def)
  next
    case False
    with assms have "i = 1" by simp
    with assms False show ?thesis
      by (cases absorbing) (auto simp: DoubleQLearning_update_Inr_iff Let_def)
  qed
qed

text \<open>
  Two tied maxima in the row of \<open>Q_0\<close>: the drawn position 1 selects the action 1, not the
  first index, and the bootstrap value 7 is the entry of \<open>Q_1\<close>.
\<close>

theorem DoubleQLearning_update_law_witness:
  "argwhere_eq [3, 3] (Max (set [3, 3])) = [0, 1] \<and>
   (\<exists>self'. DoubleQLearning_update (1 / 4) 1
             \<lparr>Q = [[[0, 0], [3, 3]], [[0, 0], [5, 7]]],
              alpha = [constant_parameter (1 / 2), constant_parameter (1 / 3)],
              mdp_info = \<lparr>mdp_size = (2, 2), gamma = 1 / 2, action_space_n = 2\<rparr>,
              next_action = None\<rparr> 0 0 1 1 False = Inr self' \<and>
           Q self' ! 0 = [[9 / 4, 0], [3, 3]] \<and> Q self' ! 1 = [[0, 0], [5, 7]] \<and>
           alpha self' ! 0 = constant_parameter (1 / 2) \<and>
           alpha self' ! 1 = constant_parameter (1 / 3))"
proof -
  have t: "argwhere_eq [3, 3] (Max (set [3, 3])) = [0, 1]"
    by (simp add: argwhere_eq_def upt_rec)
  from t DoubleQLearning_update_law
    [where u = "1 / 4" and k = 1 and i = 0
       and self = "\<lparr>Q = [[[0, 0], [3, 3]], [[0, 0], [5, 7]]],
              alpha = [constant_parameter (1 / 2), constant_parameter (1 / 3)],
              mdp_info = \<lparr>mdp_size = (2, 2), gamma = 1 / 2, action_space_n = 2\<rparr>,
              next_action = None\<rparr>"
       and state = 0 and action = 0 and reward = 1 and next_state = 1 and absorbing = False
       and q_current = 0 and a = "1 / 2" and q_ss = "[3, 3]" and ties = "[0, 1]"
       and a_star = 1 and q_next = 7
       and info = "\<lparr>mdp_size = (2, 2), gamma = 1 / 2, action_space_n = 2\<rparr>"
       and learning_rate = "constant_parameter (1 / 2)"]
  show ?thesis by simp blast
qed

subsection \<open>Weighted Q-Learning without sampling\<close>

lemma and_then_Inl_iff:
  "and_then m f = Inl err \<longleftrightarrow> m = Inl err \<or> (\<exists>x. m = Inr x \<and> f x = Inl err)"
  by (cases m) (simp_all add: and_then_def)

lemma getitem_Inl: "getitem t s a = Inl err \<Longrightarrow> err = IndexError"
  by (auto simp: getitem_def split: if_splits)

lemma setitem_Inl: "setitem t s a v = Inl err \<Longrightarrow> err = IndexError"
  by (auto simp: setitem_def split: if_splits)

lemma for_each_getitem:
  assumes "s < length t" and "\<forall>a \<in> set xs. a < length (t ! s)"
  shows "for_each (\<lambda>a. getitem t s a) xs = Inr (map (\<lambda>a. t ! s ! a) xs)"
  using assms by (induction xs) (simp_all add: getitem_def)

lemma WeightedQLearning_update_statistics_Inl:
  assumes "WeightedQLearning_update_statistics target a self state action = Inl err"
  shows "err = IndexError"
  using assms unfolding WeightedQLearning_update_statistics_def
  by (auto simp: and_then_Inl_iff dest: getitem_Inl setitem_Inl)

lemma WeightedQLearning_update_sigma_Inl:
  assumes "WeightedQLearning_update_sigma self state action = Inl err"
  shows "err = IndexError"
  using assms unfolding WeightedQLearning_update_sigma_def
  by (auto simp: and_then_Inl_iff Let_def dest: getitem_Inl setitem_Inl split: if_splits)

lemma WeightedQLearning_update_absorbing_Inl:
  assumes "WeightedQLearning_update samples drawn self state action reward next_state True
             = Inl err"
  shows "err = IndexError"
  using assms unfolding WeightedQLearning_update_def
  by (auto simp: and_then_Inl_iff Let_def case_prod_beta
      dest: getitem_Inl setitem_Inl WeightedQLearning_update_statistics_Inl
        WeightedQLearning_update_sigma_Inl)

lemma WeightedQLearning_next_q_not_sampling:
  assumes "\<not> p_sampling self"
  shows "WeightedQLearning_next_q samples drawn self next_state \<noteq> Inr r"
    and "next_state < length (Q self) \<Longrightarrow> next_state < length (p_sigma self) \<Longrightarrow>
         length (Q self ! next_state) \<le> length (p_sigma self ! next_state) \<Longrightarrow>
         WeightedQLearning_next_q samples drawn self next_state = Inl NotImplementedError"
proof -
  show "WeightedQLearning_next_q samples drawn self next_state \<noteq> Inr r"
    using assms by (auto simp: WeightedQLearning_next_q_def and_then_Inr_iff)
  assume "next_state < length (Q self)" "next_state < length (p_sigma self)"
    "length (Q self ! next_state) \<le> length (p_sigma self ! next_state)"
  then show "WeightedQLearning_next_q samples drawn self next_state = Inl NotImplementedError"
    using assms by (simp add: WeightedQLearning_next_q_def getrow_def for_each_getitem)
qed


text \<open>
  C9, as the code has it. With \<^verbatim>\<open>sampling=False\<close> the constructor of Weighted Q-Learning
  returns an agent: nothing is raised at construction. \<^verbatim>\<open>NotImplementedError\<close> is raised
  by \<^verbatim>\<open>_next_q\<close>, inside an update: an update of a transition that is not absorbing raises
  it whenever its indices are valid and never completes, so that no estimate is computed
  in the unsupported mode; an update of an absorbing transition does not call \<^verbatim>\<open>_next_q\<close>
  and never raises it.
\<close>

theorem WeightedQLearning_non_sampling:
  assumes "\<not> p_sampling self"
  shows "\<not> p_sampling (WeightedQLearning_init info learning_rate False precision weighted_policy) \<and>
         (\<not> absorbing \<and> state < length (Q self) \<and> action < length (Q self ! state) \<and>
          next_state < length (Q self) \<and> next_state < length (p_sigma self) \<and>
          length (Q self ! next_state) \<le> length (p_sigma self ! next_state) \<longrightarrow>
            WeightedQLearning_update samples drawn self state action reward next_state absorbing
              = Inl NotImplementedError) \<and>
         (\<not> absorbing \<longrightarrow>
            (\<forall>self'. WeightedQLearning_update samples drawn self state action reward next_state
                      absorbing \<noteq> Inr self')) \<and>
         (absorbing \<longrightarrow>
            WeightedQLearning_update samples drawn self state action reward next_state absorbing
              \<noteq> Inl NotImplementedError)"
proof (intro conjI impI allI)
  show "\<not> p_sampling
            (WeightedQLearning_init info learning_rate False precision weighted_policy)"
    by (simp add: WeightedQLearning_init_def)
next
  assume "\<not> absorbing \<and> state < length (Q self) \<and> action < length (Q self ! state) \<and>
          next_state < length (Q self) \<and> next_state < length (p_sigma self) \<and>
          length (Q self ! next_state) \<le> length (p_sigma self ! next_state)"
  then show "WeightedQLearning_update samples drawn self state action reward next_state
               absorbing = Inl NotImplementedError"
    using WeightedQLearning_next_q_not_sampling(2) [OF assms, of next_state samples drawn]
    by (simp add: WeightedQLearning_update_def getitem_def)
next
  fix self'
  assume "\<not> absorbing"
  then show "WeightedQLearning_update samples drawn self state action reward next_state
               absorbing \<noteq> Inr self'"
    using WeightedQLearning_next_q_not_sampling(1) [OF assms]
    by (auto simp: WeightedQLearning_update_def and_then_Inr_iff)
next
  assume "absorbing"
  then show "WeightedQLearning_update samples drawn self state action reward next_state
               absorbing \<noteq> Inl NotImplementedError"
    by (auto dest: WeightedQLearning_update_absorbing_Inl)
qed

theorem WeightedQLearning_non_sampling_witness:
  "\<not> p_sampling (WeightedQLearning_init
       \<lparr>mdp_size = (1, 1), gamma = 1 / 2, action_space_n = 1\<rparr>
       (constant_parameter (1 / 2)) False 1000 False) \<and>
   WeightedQLearning_update [] 0
     (WeightedQLearning_init \<lparr>mdp_size = (1, 1), gamma = 1 / 2, action_space_n = 1\<rparr>
        (constant_parameter (1 / 2)) False 1000 False) 0 0 1 0 False
     = Inl NotImplementedError \<and>
   WeightedQLearning_update [] 0
     (WeightedQLearning_init \<lparr>mdp_size = (1, 1), gamma = 1 / 2, action_space_n = 1\<rparr>
        (constant_parameter (1 / 2)) False 1000 False) 0 0 1 0 True
     \<noteq> Inl NotImplementedError"
proof -
  have n: "\<not> p_sampling (WeightedQLearning_init
       \<lparr>mdp_size = (1, 1), gamma = 1 / 2, action_space_n = 1\<rparr>
       (constant_parameter (1 / 2)) False 1000 False)"
    by (simp add: WeightedQLearning_init_def)
  note t1 = WeightedQLearning_non_sampling
    [OF n, where absorbing = False and state = 0 and action = 0 and next_state = 0
       and samples = "[]" and drawn = 0 and reward = 1
       and info = "\<lparr>mdp_size = (1, 1), gamma = 1 / 2, action_space_n = 1\<rparr>"
       and learning_rate = "constant_parameter (1 / 2)" and precision = 1000
       and weighted_policy = False]
  note t2 = WeightedQLearning_non_sampling
    [OF n, where absorbing = True and state = 0 and action = 0 and next_state = 0
       and samples = "[]" and drawn = 0 and reward = 1, THEN conjunct2, THEN conjunct2,
     THEN conjunct2]
  from t1 t2 show ?thesis
    by (simp add: WeightedQLearning_init_def Table_def)
qed

text \<open>
  C9, as the specification has it, fails: the constructor with \<^verbatim>\<open>sampling=False\<close> returns
  an agent, an update of an absorbing transition then runs to its end, and the error
  comes out of an update, of a transition that is not absorbing.
\<close>

theorem WeightedQLearning_non_sampling_counterexample:
  "WeightedQLearning_update [] 0
     (WeightedQLearning_init \<lparr>mdp_size = (1, 1), gamma = 1 / 2, action_space_n = 1\<rparr>
        (constant_parameter (1 / 2)) False 1000 False) 0 0 1 0 True
     = Inr \<lparr>Q = [[1 / 2]], alpha = constant_parameter (1 / 2),
            mdp_info = \<lparr>mdp_size = (1, 1), gamma = 1 / 2, action_space_n = 1\<rparr>,
            next_action = None, p_sampling = False, p_precision = 1000,
            p_n_updates = [[1]], p_sigma = [[10 ^ 10]], p_Q = [[1]], p_Q2 = [[1]],
            p_weights_var = [[1 / 4]], p_use_weighted_policy = False, p_w = None\<rparr> \<and>
   WeightedQLearning_update [] 0
     (WeightedQLearning_init \<lparr>mdp_size = (1, 1), gamma = 1 / 2, action_space_n = 1\<rparr>
        (constant_parameter (1 / 2)) False 1000 False) 0 0 1 0 False
     = Inl NotImplementedError"
  by (simp add: WeightedQLearning_init_def Table_def WeightedQLearning_update_def
      WeightedQLearning_update_statistics_def WeightedQLearning_update_sigma_def
      WeightedQLearning_next_q_def getitem_def setitem_def getrow_def power2_eq_square)

subsection \<open>What the other rules write\<close>

lemma WeightedQLearning_next_q_frame:
  assumes "WeightedQLearning_next_q samples drawn self next_state = Inr (q, self')"
  shows "Q self' = Q self \<and> alpha self' = alpha self \<and> mdp_info self' = mdp_info self"
  using assms
  by (auto simp: WeightedQLearning_next_q_def and_then_Inr_iff Let_def split: if_splits)

lemma WeightedQLearning_update_statistics_Q:
  assumes "WeightedQLearning_update_statistics target a self state action = Inr self'"
  shows "Q self' = Q self"
  using assms
  by (auto simp: WeightedQLearning_update_statistics_def and_then_Inr_iff)

lemma WeightedQLearning_update_sigma_Q:
  assumes "WeightedQLearning_update_sigma self state action = Inr self'"
  shows "Q self' = Q self"
  using assms
  by (auto simp: WeightedQLearning_update_sigma_def and_then_Inr_iff Let_def split: if_splits)

lemma WeightedQLearning_update_Q:
  assumes "WeightedQLearning_update samples drawn self state action reward next_state absorbing
             = Inr self'"
  shows "state < length (Q self) \<and> action < length (Q self ! state) \<and>
         (\<exists>q_next. (absorbing \<longrightarrow> q_next = 0) \<and>
            Q self' = (Q self)[state := (Q self ! state)[action :=
              Q self ! state ! action + fst (call (alpha self) state action None None) *
              (reward + gamma (mdp_info self) * q_next - Q self ! state ! action)]])"
proof -
  from assms obtain q_next self1 self2 where
    rng: "state < length (Q self)" "action < length (Q self ! state)" and
    nq: "(if \<not> absorbing then WeightedQLearning_next_q samples drawn self next_state
          else Inr (0, self)) = Inr (q_next, self1)" and
    st: "WeightedQLearning_update_statistics (reward + gamma (mdp_info self1) * q_next)
           (fst (call (alpha self1) state action None None))
           (self1\<lparr>Q := (Q self1)[state := (Q self1 ! state)[action :=
                Q self ! state ! action + fst (call (alpha self1) state action None None) *
                (reward + gamma (mdp_info self1) * q_next - Q self ! state ! action)]],
              alpha := snd (call (alpha self1) state action None None)\<rparr>) state action
           = Inr self2" and
    sg: "WeightedQLearning_update_sigma self2 state action = Inr self'"
    unfolding WeightedQLearning_update_def
    by (fastforce simp: and_then_Inr_iff getitem_Inr_iff setitem_Inr_iff Let_def
        case_prod_beta)
  from nq have f: "Q self1 = Q self" "alpha self1 = alpha self" "mdp_info self1 = mdp_info self"
    "absorbing \<longrightarrow> q_next = 0"
    by (auto dest: WeightedQLearning_next_q_frame split: if_splits)
  from st sg have "Q self' = (Q self1)[state := (Q self1 ! state)[action :=
                Q self ! state ! action + fst (call (alpha self1) state action None None) *
                (reward + gamma (mdp_info self1) * q_next - Q self ! state ! action)]]"
    by (auto dest!: WeightedQLearning_update_statistics_Q WeightedQLearning_update_sigma_Q)
  with rng f show ?thesis by auto
qed

lemma EligibilityTrace_update_Inr:
  assumes "EligibilityTrace_update tr state action = Inr tr'"
  shows "state < length (table tr) \<and> action < length (table tr ! state) \<and>
         tr' = tr\<lparr>table := (table tr)[state := (table tr ! state)[action :=
                  (case kind tr of Replacing \<Rightarrow> 1
                   | Accumulating \<Rightarrow> table tr ! state ! action + 1)]]\<rparr>"
  using assms
  by (auto simp: EligibilityTrace_update_def and_then_Inr_iff getitem_Inr_iff setitem_Inr_iff
      split: trace_kind.splits)

lemma SARSALambdaDiscrete_update_Inr_iff:
  "SARSALambdaDiscrete_update drawn self state action reward next_state absorbing = Inr self'
     \<longleftrightarrow>
     state < length (Q self) \<and> action < length (Q self ! state) \<and>
     (absorbing \<or> next_state < length (Q self) \<and> drawn < length (Q self ! next_state)) \<and>
     (\<exists>e1. EligibilityTrace_update (SARSALambdaDiscrete.e self) state action = Inr e1 \<and>
        map length (Q self) = map length (table e1) \<and>
        self' = self\<lparr>Q := map2 (\<lambda>t_row u_row. map2 (\<lambda>x y. x +
                    fst (call (alpha self) state action None None) *
                    (reward + gamma (mdp_info self) *
                       (if absorbing then 0 else Q self ! next_state ! drawn) -
                     Q self ! state ! action) * y) t_row u_row) (Q self) (table e1),
                 alpha := snd (call (alpha self) state action None None),
                 next_action := Some drawn,
                 SARSALambdaDiscrete.e := e1\<lparr>table := table_imul (table e1)
                    (gamma (mdp_info self) * SARSALambdaDiscrete.p_lambda self)\<rparr>\<rparr>)"
  by (auto simp: SARSALambdaDiscrete_update_def and_then_Inr_iff getitem_Inr_iff
      table_iadd_scaled_def Let_def case_prod_beta)

lemma np_add_Inr_iff:
  "np_add xs ys = Inr zs \<longleftrightarrow> length xs = length ys \<and> zs = map2 (\<lambda>x y. x + y) xs ys"
  by (auto simp: np_add_def)

lemma SARSALambdaContinuous_update_Inr_iff:
  "SARSALambdaContinuous_update drawn self state action reward next_state absorbing = Inr self'
     \<longleftrightarrow>
     (let phi_state = SARSALambdaContinuous.phi self state;
          q_current = predict (Q self) phi_state action;
          a = fst (call (alpha self) state action None None);
          e' = map2 (\<lambda>x y. x + y)
                 (np_scale (gamma (mdp_info self) * SARSALambdaContinuous.p_lambda self)
                    (SARSALambdaContinuous.e self))
                 (diff (Q self) phi_state action);
          q_next = (if absorbing then 0
                    else predict (Q self) (SARSALambdaContinuous.phi self next_state) drawn);
          delta = reward + gamma (mdp_info self) * q_next - q_current
      in length (SARSALambdaContinuous.e self) = length (diff (Q self) phi_state action) \<and>
         length (weights (Q self)) = length e' \<and>
         self' = self\<lparr>Q := (Q self)\<lparr>weights := map2 (\<lambda>x y. x + y) (weights (Q self))
                                              (np_scale (a * delta) e')\<rparr>,
                  alpha := snd (call (alpha self) state action None None),
                  next_action := Some drawn, SARSALambdaContinuous.e := e'\<rparr>)"
  by (auto simp: SARSALambdaContinuous_update_def and_then_Inr_iff np_add_Inr_iff Let_def
      case_prod_beta get_weights_def set_weights_def np_scale_def)

lemma TrueOnlineSARSALambda_update_Inr_iff:
  "TrueOnlineSARSALambda_update get_action_features drawn self state action reward next_state
     absorbing = Inr self' \<longleftrightarrow>
     (let phi_state = phi self state;
          phi_state_action =
            get_action_features phi_state action (action_space_n (mdp_info self));
          q_current = predict (Q self) phi_state action;
          q_old = (case p_q_old self of None \<Rightarrow> q_current | Some q \<Rightarrow> q);
          a = fst (call (alpha self) state action None None);
          e_phi = (\<Sum>i<length (e self). e self ! i * phi_state_action ! i);
          e' = map2 (\<lambda>x y. x + y)
                 (np_scale (gamma (mdp_info self) * p_lambda self) (e self))
                 (np_scale (a * (1 - gamma (mdp_info self) * p_lambda self * e_phi))
                    phi_state_action);
          q_next = (if absorbing then 0 else predict (Q self) (phi self next_state) drawn);
          delta = reward + gamma (mdp_info self) * q_next - q_old
      in length (e self) = length phi_state_action \<and>
         length (weights (Q self)) = length (e self) \<and>
         self' = self\<lparr>Q := (Q self)\<lparr>weights := map2 (\<lambda>x y. x + y) (weights (Q self))
                    (map2 (\<lambda>x y. x + y) (np_scale delta e')
                       (np_scale (a * (q_old - q_current)) phi_state_action))\<rparr>,
                  alpha := snd (call (alpha self) state action None None),
                  next_action := Some drawn, e := e', p_q_old := Some q_next\<rparr>)"
  by (auto simp: TrueOnlineSARSALambda_update_def and_then_Inr_iff np_add_Inr_iff
      np_dot_Inr_iff Let_def case_prod_beta get_weights_def set_weights_def np_scale_def)

subsection \<open>Absorbing transitions\<close>

lemma RQLearning_update_absorbing:
  assumes "RQLearning_update drawn self state action reward next_state True = Inr self'"
  shows "Q_tilde self' = Q_tilde self \<and>
         Q self' = (Q self)[state := (Q self ! state)[action :=
            R_tilde self' ! state ! action +
            gamma (mdp_info self) * Q_tilde self ! state ! action]]"
proof -
  from RQLearning_update_Inr [OF assms] obtain v_r v_q where
    rng: "state < length (R_tilde self)" "action < length (R_tilde self ! state)"
         "state < length (Q_tilde self)" "action < length (Q_tilde self ! state)" and
    R: "R_tilde self' = (R_tilde self)[state := (R_tilde self ! state)[action := v_r]]" and
    T: "Q_tilde self' = (Q_tilde self)[state := (Q_tilde self ! state)[action := v_q]]" and
    C: "Q self' = (Q self)[state := (Q self ! state)[action :=
          v_r + gamma (mdp_info self) * v_q]]" and
    v: "v_q = Q_tilde self ! state ! action"
    by blast
  from rng show ?thesis by (simp add: R T C v)
qed

text \<open>
  C5, as the code has it. For every rule but RQ-Learning, when the transition is absorbing
  the bootstrap term is exactly 0, whatever the stores hold: a completed update writes what
  the rule's formula gives with 0 in the place of \<open>q_next\<close> (Speedy Q-Learning: of both
  maxima), and True Online SARSA(lambda) also keeps 0 as its previous value. RQ-Learning
  computes no bootstrap term for an absorbing transition: it leaves \<open>Q_tilde\<close> as it is and
  writes \<open>Q(s, a) = R_tilde(s, a) + gamma * Q_tilde(s, a)\<close> with the entry of \<open>Q_tilde\<close>
  that the earlier updates left.
\<close>

theorem absorbing_zero_bootstrap:
  "(QLearning_update self state action reward next_state True = Inr self' \<longrightarrow>
      Q self' = (Q self)[state := (Q self ! state)[action :=
        Q self ! state ! action + fst (call (alpha self) state action None None) *
        (reward + gamma (mdp_info self) * 0 - Q self ! state ! action)]]) \<and>
   (DoubleQLearning_update u k self_d state action reward next_state True = Inr self_d' \<and>
    i = (if u < 1 / 2 then 0 else 1 :: nat) \<longrightarrow>
      Q self_d' = (Q self_d)[i := (Q self_d ! i)[state := (Q self_d ! i ! state)[action :=
        Q self_d ! i ! state ! action +
        fst (call (alpha self_d ! i) state action None None) *
        (reward + gamma (mdp_info self_d) * 0 - Q self_d ! i ! state ! action)]]]) \<and>
   (WeightedQLearning_update samples drawn self_w state action reward next_state True
      = Inr self_w' \<longrightarrow>
      Q self_w' = (Q self_w)[state := (Q self_w ! state)[action :=
        Q self_w ! state ! action + fst (call (alpha self_w) state action None None) *
        (reward + gamma (mdp_info self_w) * 0 - Q self_w ! state ! action)]]) \<and>
   (SpeedyQLearning_update self_s state action reward next_state True = Inr self_s' \<longrightarrow>
      Q self_s' = (Q self_s)[state := (Q self_s ! state)[action :=
        Q self_s ! state ! action + fst (call (alpha self_s) state action None None) *
        (reward + gamma (mdp_info self_s) * 0 - Q self_s ! state ! action) +
        (1 - fst (call (alpha self_s) state action None None)) *
        (reward + gamma (mdp_info self_s) * 0 - (reward + gamma (mdp_info self_s) * 0))]]) \<and>
   (SARSA_update drawn self_a state action reward next_state True = Inr self_a' \<longrightarrow>
      Q self_a' = (Q self_a)[state := (Q self_a ! state)[action :=
        Q self_a ! state ! action + fst (call (alpha self_a) state action None None) *
        (reward + gamma (mdp_info self_a) * 0 - Q self_a ! state ! action)]]) \<and>
   (SARSALambdaDiscrete_update drawn self_l state action reward next_state True = Inr self_l'
      \<longrightarrow>
      (\<exists>e1. EligibilityTrace_update (SARSALambdaDiscrete.e self_l) state action = Inr e1 \<and>
         Q self_l' = map2 (\<lambda>t_row u_row. map2 (\<lambda>x y. x +
             fst (call (alpha self_l) state action None None) *
             (reward + gamma (mdp_info self_l) * 0 - Q self_l ! state ! action) * y)
             t_row u_row) (Q self_l) (table e1))) \<and>
   (SARSALambdaContinuous_update drawn self_c state_c action reward next_state_c True
      = Inr self_c' \<longrightarrow>
      weights (Q self_c') = map2 (\<lambda>x y. x + y) (weights (Q self_c))
        (np_scale (fst (call (alpha self_c) state_c action None None) *
           (reward + gamma (mdp_info self_c) * 0 -
            predict (Q self_c) (SARSALambdaContinuous.phi self_c state_c) action))
           (SARSALambdaContinuous.e self_c'))) \<and>
   (ExpectedSARSA_update probabilities self_e state action reward next_state True
      = Inr self_e' \<longrightarrow>
      Q self_e' = (Q self_e)[state := (Q self_e ! state)[action :=
        Q self_e ! state ! action + fst (call (alpha self_e) state action None None) *
        (reward + gamma (mdp_info self_e) * 0 - Q self_e ! state ! action)]]) \<and>
   (TrueOnlineSARSALambda_update get_action_features drawn self_t state_c action reward
      next_state_c True = Inr self_t' \<and>
    q_current = predict (Q self_t) (phi self_t state_c) action \<and>
    q_old = (case p_q_old self_t of None \<Rightarrow> q_current | Some q \<Rightarrow> q) \<longrightarrow>
      p_q_old self_t' = Some 0 \<and>
      weights (Q self_t') = map2 (\<lambda>x y. x + y) (weights (Q self_t))
        (map2 (\<lambda>x y. x + y)
           (np_scale (reward + gamma (mdp_info self_t) * 0 - q_old) (e self_t'))
           (np_scale (fst (call (alpha self_t) state_c action None None) *
                      (q_old - q_current))
              (get_action_features (phi self_t state_c) action
                 (action_space_n (mdp_info self_t)))))) \<and>
   (RLearning_update self_r state action reward next_state True = Inr self_r' \<longrightarrow>
      Q self_r' = (Q self_r)[state := (Q self_r ! state)[action :=
        Q self_r ! state ! action + fst (call (alpha self_r) state action None None) *
        (reward - p_rho self_r + 0 - Q self_r ! state ! action)]]) \<and>
   (RQLearning_update drawn self_rq state action reward next_state True = Inr self_rq' \<longrightarrow>
      Q_tilde self_rq' = Q_tilde self_rq \<and>
      Q self_rq' = (Q self_rq)[state := (Q self_rq ! state)[action :=
        R_tilde self_rq' ! state ! action +
        gamma (mdp_info self_rq) * Q_tilde self_rq ! state ! action]])"
proof (intro conjI impI)
  assume "QLearning_update self state action reward next_state True = Inr self'"
  then show "Q self' = (Q self)[state := (Q self ! state)[action :=
        Q self ! state ! action + fst (call (alpha self) state action None None) *
        (reward + gamma (mdp_info self) * 0 - Q self ! state ! action)]]"
    by (simp add: QLearning_update_Inr_iff)
next
  assume "DoubleQLearning_update u k self_d state action reward next_state True = Inr self_d' \<and>
    i = (if u < 1 / 2 then 0 else 1 :: nat)"
  then show "Q self_d' = (Q self_d)[i := (Q self_d ! i)[state := (Q self_d ! i ! state)[action
      := Q self_d ! i ! state ! action +
        fst (call (alpha self_d ! i) state action None None) *
        (reward + gamma (mdp_info self_d) * 0 - Q self_d ! i ! state ! action)]]]"
    by (auto simp: DoubleQLearning_update_Inr_iff Let_def)
next
  assume "WeightedQLearning_update samples drawn self_w state action reward next_state True
      = Inr self_w'"
  from WeightedQLearning_update_Q [OF this]
  show "Q self_w' = (Q self_w)[state := (Q self_w ! state)[action :=
        Q self_w ! state ! action + fst (call (alpha self_w) state action None None) *
        (reward + gamma (mdp_info self_w) * 0 - Q self_w ! state ! action)]]"
    by auto
next
  assume "SpeedyQLearning_update self_s state action reward next_state True = Inr self_s'"
  then show "Q self_s' = (Q self_s)[state := (Q self_s ! state)[action :=
        Q self_s ! state ! action + fst (call (alpha self_s) state action None None) *
        (reward + gamma (mdp_info self_s) * 0 - Q self_s ! state ! action) +
        (1 - fst (call (alpha self_s) state action None None)) *
        (reward + gamma (mdp_info self_s) * 0 - (reward + gamma (mdp_info self_s) * 0))]]"
    by (simp add: SpeedyQLearning_update_Inr_iff)
next
  assume "SARSA_update drawn self_a state action reward next_state True = Inr self_a'"
  then show "Q self_a' = (Q self_a)[state := (Q self_a ! state)[action :=
        Q self_a ! state ! action + fst (call (alpha self_a) state action None None) *
        (reward + gamma (mdp_info self_a) * 0 - Q self_a ! state ! action)]]"
    by (simp add: SARSA_update_Inr_iff)
next
  assume "SARSALambdaDiscrete_update drawn self_l state action reward next_state True
            = Inr self_l'"
  then show "\<exists>e1. EligibilityTrace_update (SARSALambdaDiscrete.e self_l) state action = Inr e1 \<and>
         Q self_l' = map2 (\<lambda>t_row u_row. map2 (\<lambda>x y. x +
             fst (call (alpha self_l) state action None None) *
             (reward + gamma (mdp_info self_l) * 0 - Q self_l ! state ! action) * y)
             t_row u_row) (Q self_l) (table e1)"
    by (auto simp: SARSALambdaDiscrete_update_Inr_iff)
next
  assume "SARSALambdaContinuous_update drawn self_c state_c action reward next_state_c True
      = Inr self_c'"
  then show "weights (Q self_c') = map2 (\<lambda>x y. x + y) (weights (Q self_c))
        (np_scale (fst (call (alpha self_c) state_c action None None) *
           (reward + gamma (mdp_info self_c) * 0 -
            predict (Q self_c) (SARSALambdaContinuous.phi self_c state_c) action))
           (SARSALambdaContinuous.e self_c'))"
    by (auto simp: SARSALambdaContinuous_update_Inr_iff Let_def)
next
  assume "ExpectedSARSA_update probabilities self_e state action reward next_state True
            = Inr self_e'"
  then show "Q self_e' = (Q self_e)[state := (Q self_e ! state)[action :=
        Q self_e ! state ! action + fst (call (alpha self_e) state action None None) *
        (reward + gamma (mdp_info self_e) * 0 - Q self_e ! state ! action)]]"
    by (simp add: ExpectedSARSA_update_Inr_iff)
next
  assume h: "TrueOnlineSARSALambda_update get_action_features drawn self_t state_c action
      reward next_state_c True = Inr self_t' \<and>
    q_current = predict (Q self_t) (phi self_t state_c) action \<and>
    q_old = (case p_q_old self_t of None \<Rightarrow> q_current | Some q \<Rightarrow> q)"
  then show "p_q_old self_t' = Some 0"
    by (auto simp: TrueOnlineSARSALambda_update_Inr_iff Let_def)
  from h show "weights (Q self_t') = map2 (\<lambda>x y. x + y) (weights (Q self_t))
        (map2 (\<lambda>x y. x + y)
           (np_scale (reward + gamma (mdp_info self_t) * 0 - q_old) (e self_t'))
           (np_scale (fst (call (alpha self_t) state_c action None None) *
                      (q_old - q_current))
              (get_action_features (phi self_t state_c) action
                 (action_space_n (mdp_info self_t)))))"
    by (auto simp: TrueOnlineSARSALambda_update_Inr_iff Let_def)
next
  assume "RLearning_update self_r state action reward next_state True = Inr self_r'"
  then show "Q self_r' = (Q self_r)[state := (Q self_r ! state)[action :=
        Q self_r ! state ! action + fst (call (alpha self_r) state action None None) *
        (reward - p_rho self_r + 0 - Q self_r ! state ! action)]]"
    by (auto simp: RLearning_update_Inr_iff Let_def split: if_splits)
next
  assume "RQLearning_update drawn self_rq state action reward next_state True = Inr self_rq'"
  from RQLearning_update_absorbing [OF this]
  show "Q_tilde self_rq' = Q_tilde self_rq"
    and "Q self_rq' = (Q self_rq)[state := (Q self_rq ! state)[action :=
        R_tilde self_rq' ! state ! action +
        gamma (mdp_info self_rq) * Q_tilde self_rq ! state ! action]]"
    by simp_all
qed


lemmas example_defs = example_mdp_def example_TD_def example_DoubleQLearning_def
  example_WeightedQLearning_def example_SpeedyQLearning_def example_SARSALambdaDiscrete_def
  example_Regressor_def example_SARSALambdaContinuous_def example_TrueOnlineSARSALambda_def
  example_action_features_def example_RLearning_def example_RQLearning_def

lemmas table_defs = getitem_def setitem_def getrow_def list_get_def

text \<open>
  An absorbing update of each rule, with reward 1, learning rate \<open>1/2\<close> (1 for
  RQ-Learning) and the next state 1, whose row in the tabular rules is not zero.
\<close>

theorem absorbing_zero_bootstrap_witness:
  "(\<exists>self'. QLearning_update (example_TD (constant_parameter (1 / 2))) 0 0 1 1 True
      = Inr self' \<and> Q self' = [[3 / 2, 0], [4, 1]]) \<and>
   (\<exists>self'. DoubleQLearning_update (1 / 4) 0
      (example_DoubleQLearning (constant_parameter (1 / 2))) 0 0 1 1 True
      = Inr self' \<and> Q self' = [[[3 / 2, 0], [4, 1]], [[0, 0], [5, 7]]]) \<and>
   (\<exists>self'. WeightedQLearning_update [] 0
      (example_WeightedQLearning (constant_parameter (1 / 2))) 0 0 1 1 True
      = Inr self' \<and> Q self' = [[3 / 2, 0], [4, 1]]) \<and>
   (\<exists>self'. SpeedyQLearning_update (example_SpeedyQLearning (constant_parameter (1 / 2)))
      0 0 1 1 True = Inr self' \<and> Q self' = [[3 / 2, 0], [4, 1]]) \<and>
   (\<exists>self'. SARSA_update 0 (example_TD (constant_parameter (1 / 2))) 0 0 1 1 True
      = Inr self' \<and> Q self' = [[3 / 2, 0], [4, 1]]) \<and>
   (\<exists>self'. SARSALambdaDiscrete_update 0
      (example_SARSALambdaDiscrete (constant_parameter (1 / 2))) 0 0 1 1 True
      = Inr self' \<and> Q self' = [[3 / 2, 0], [4, 1 / 2]]) \<and>
   (\<exists>self'. SARSALambdaContinuous_update 0
      (example_SARSALambdaContinuous (constant_parameter (1 / 2))) 0 0 1 1 True
      = Inr self' \<and> weights (Q self') = [7 / 4]) \<and>
   (\<exists>self'. ExpectedSARSA_update [1, 0] (example_TD (constant_parameter (1 / 2))) 0 0 1 1 True
      = Inr self' \<and> Q self' = [[3 / 2, 0], [4, 1]]) \<and>
   (\<exists>self'. TrueOnlineSARSALambda_update example_action_features 0
      (example_TrueOnlineSARSALambda (constant_parameter (1 / 2))) 0 0 1 1 True
      = Inr self' \<and> weights (Q self') = [7 / 4] \<and> p_q_old self' = Some 0) \<and>
   (\<exists>self'. RLearning_update (example_RLearning (constant_parameter (1 / 2))) 0 0 1 1 True
      = Inr self' \<and> Q self' = [[3 / 2, 0], [4, 1]]) \<and>
   (\<exists>self'. RQLearning_update 0 (example_RQLearning (constant_parameter 1)) 0 0 1 1 True
      = Inr self' \<and> Q_tilde self' = [[1], [0]] \<and> Q self' = [[3 / 2], [0]])"
proof -
  obtain c1 where h1: "QLearning_update (example_TD (constant_parameter (1 / 2))) 0 0 1 1 True
      = Inr c1"
    by (simp add: example_defs table_defs QLearning_update_def)
  obtain c2 where h2: "DoubleQLearning_update (1 / 4) 0
      (example_DoubleQLearning (constant_parameter (1 / 2))) 0 0 1 1 True = Inr c2"
    by (simp add: example_defs table_defs DoubleQLearning_update_def)
  obtain c3 where h3: "WeightedQLearning_update [] 0
      (example_WeightedQLearning (constant_parameter (1 / 2))) 0 0 1 1 True = Inr c3"
    by (simp add: example_defs table_defs WeightedQLearning_update_def
        WeightedQLearning_update_statistics_def WeightedQLearning_update_sigma_def)
  obtain c4 where h4: "SpeedyQLearning_update
      (example_SpeedyQLearning (constant_parameter (1 / 2))) 0 0 1 1 True = Inr c4"
    by (simp add: example_defs table_defs SpeedyQLearning_update_def)
  obtain c5 where h5: "SARSA_update 0 (example_TD (constant_parameter (1 / 2))) 0 0 1 1 True
      = Inr c5"
    by (simp add: example_defs table_defs SARSA_update_def)
  obtain c6 where h6: "SARSALambdaDiscrete_update 0
      (example_SARSALambdaDiscrete (constant_parameter (1 / 2))) 0 0 1 1 True = Inr c6"
    by (simp add: example_defs table_defs SARSALambdaDiscrete_update_def
        EligibilityTrace_update_def table_iadd_scaled_def)
  obtain c7 where h7: "SARSALambdaContinuous_update 0
      (example_SARSALambdaContinuous (constant_parameter (1 / 2))) 0 0 1 1 True = Inr c7"
    by (simp add: example_defs SARSALambdaContinuous_update_def predict_def diff_def
        np_add_def np_scale_def get_weights_def set_weights_def Let_def)
  obtain c8 where h8: "ExpectedSARSA_update [1, 0] (example_TD (constant_parameter (1 / 2)))
      0 0 1 1 True = Inr c8"
    by (simp add: example_defs table_defs ExpectedSARSA_update_def)
  obtain c9 where h9: "TrueOnlineSARSALambda_update example_action_features 0
      (example_TrueOnlineSARSALambda (constant_parameter (1 / 2))) 0 0 1 1 True = Inr c9"
    by (simp add: example_defs TrueOnlineSARSALambda_update_def predict_def np_dot_def
        np_add_def np_scale_def get_weights_def set_weights_def Let_def)
  obtain c10 where h10: "RLearning_update (example_RLearning (constant_parameter (1 / 2)))
      0 0 1 1 True = Inr c10"
    by (simp add: example_defs table_defs RLearning_update_def)
  obtain c11 where h11: "RQLearning_update 0 (example_RQLearning (constant_parameter 1))
      0 0 1 1 True = Inr c11"
    by (simp add: example_defs table_defs RQLearning_update_def)
  note t = absorbing_zero_bootstrap
    [where self = "example_TD (constant_parameter (1 / 2))" and self' = c1
       and u = "1 / 4" and k = 0 and i = 0
       and self_d = "example_DoubleQLearning (constant_parameter (1 / 2))" and self_d' = c2
       and samples = "[]" and drawn = 0
       and self_w = "example_WeightedQLearning (constant_parameter (1 / 2))" and self_w' = c3
       and self_s = "example_SpeedyQLearning (constant_parameter (1 / 2))" and self_s' = c4
       and self_a = "example_TD (constant_parameter (1 / 2))" and self_a' = c5
       and self_l = "example_SARSALambdaDiscrete (constant_parameter (1 / 2))"
       and self_l' = c6
       and self_c = "example_SARSALambdaContinuous (constant_parameter (1 / 2))"
       and self_c' = c7 and state_c = 0 and next_state_c = 1
       and probabilities = "[1, 0]" and self_e = "example_TD (constant_parameter (1 / 2))"
       and self_e' = c8
       and get_action_features = example_action_features
       and self_t = "example_TrueOnlineSARSALambda (constant_parameter (1 / 2))"
       and self_t' = c9 and q_current = 3 and q_old = 3
       and self_r = "example_RLearning (constant_parameter (1 / 2))" and self_r' = c10
       and self_rq = "example_RQLearning (constant_parameter 1)" and self_rq' = c11
       and state = 0 and action = 0 and next_state = 1 and reward = 1]
  show ?thesis
    using t h1 h2 h3 h4 h5 h6 h7 h8 h9 h10 h11
    by (auto simp: example_defs table_defs EligibilityTrace_update_def predict_def diff_def
        np_scale_def np_add_def np_dot_def get_weights_def set_weights_def Let_def
        table_iadd_scaled_def QLearning_update_def DoubleQLearning_update_def
        WeightedQLearning_update_def WeightedQLearning_update_statistics_def
        WeightedQLearning_update_sigma_def SpeedyQLearning_update_def SARSA_update_def
        SARSALambdaDiscrete_update_def SARSALambdaContinuous_update_def
        ExpectedSARSA_update_def TrueOnlineSARSALambda_update_def RLearning_update_def
        RQLearning_update_def)
qed


text \<open>
  C5, as the specification has it, fails for RQ-Learning. The agent that two updates with
  reward 1 make of the constructed one has \<open>R_tilde(0, 0) = 1\<close> and \<open>Q_tilde(0, 0) = 1\<close>.
  Its update on an absorbing transition with reward 1 leaves \<open>Q_tilde(0, 0) = 1\<close> and
  writes \<open>Q(0, 0) = 1 + gamma * 1\<close>: the term that \<open>gamma\<close> multiplies is 1, not 0, and the
  value written is not \<open>R_tilde(0, 0) + gamma * 0\<close>.
\<close>

theorem absorbing_zero_bootstrap_counterexample:
  "RQLearning_init \<lparr>mdp_size = (2, 1), gamma = 1 / 2, action_space_n = 1\<rparr>
     (constant_parameter 1) True (Some (constant_parameter 1)) None =
     Inr \<lparr>Q = [[0], [0]], alpha = constant_parameter 1,
          mdp_info = \<lparr>mdp_size = (2, 1), gamma = 1 / 2, action_space_n = 1\<rparr>,
          next_action = None, off_policy = True, delta = None,
          beta = Some (constant_parameter 1), Q_tilde = [[0], [0]],
          R_tilde = [[0], [0]]\<rparr> \<and>
   RQLearning_fit_all [(0, (0, 0, 1, 0, False)), (0, (0, 0, 1, 0, False))]
     \<lparr>Q = [[0], [0]], alpha = constant_parameter 1,
      mdp_info = \<lparr>mdp_size = (2, 1), gamma = 1 / 2, action_space_n = 1\<rparr>,
      next_action = None, off_policy = True, delta = None,
      beta = Some (constant_parameter 1), Q_tilde = [[0], [0]], R_tilde = [[0], [0]]\<rparr> =
     Inr (example_RQLearning (constant_parameter 1)) \<and>
   RQLearning_update 0 (example_RQLearning (constant_parameter 1)) 0 0 1 1 True =
     Inr (example_RQLearning (constant_parameter 1)) \<and>
   Q_tilde (example_RQLearning (constant_parameter 1)) ! 0 ! 0 = 1 \<and>
   Q (example_RQLearning (constant_parameter 1)) ! 0 ! 0 =
     R_tilde (example_RQLearning (constant_parameter 1)) ! 0 ! 0 +
     gamma (mdp_info (example_RQLearning (constant_parameter 1))) * 1 \<and>
   Q (example_RQLearning (constant_parameter 1)) ! 0 ! 0 \<noteq>
     R_tilde (example_RQLearning (constant_parameter 1)) ! 0 ! 0 +
     gamma (mdp_info (example_RQLearning (constant_parameter 1))) * 0"
  by (simp add: example_RQLearning_def RQLearning_init_def Table_def fit_def parse_def
      RQLearning_update_def RQLearning_update_not_absorbing_def RQLearning_next_q_def
      RQLearning_beta_value_def getitem_def setitem_def getrow_def numeral_2_eq_2)

subsection \<open>Zero learning rate\<close>

lemma map2_fst_id: "length xs = length ys \<Longrightarrow> map2 (\<lambda>x y. x) xs ys = xs"
  by (induction xs ys rule: list_induct2) simp_all

lemma table_iadd_zero:
  "map length t = map length u \<Longrightarrow>
     map2 (\<lambda>t_row u_row. map2 (\<lambda>x y. x) t_row u_row) t u = t"
proof (induction t arbitrary: u)
  case Nil
  then show ?case by simp
next
  case (Cons r t)
  then obtain r' u' where u: "u = r' # u'" by (cases u) auto
  with Cons.prems have "length r = length r'" "map length t = map length u'" by simp_all
  with Cons.IH [of u'] show ?case by (simp add: u map2_fst_id)
qed

lemma map2_add_zeros:
  "length xs = length ys \<Longrightarrow> map2 (\<lambda>x y. x + y) xs (map (\<lambda>y. 0) ys) = (xs :: real list)"
  by (induction xs ys rule: list_induct2) simp_all

lemma map2_add_scaled:
  "length xs = length ys \<Longrightarrow>
     map2 (\<lambda>x y. x + y) xs (map (\<lambda>y. c * y) ys) = map2 (\<lambda>x y. x + c * y) xs (ys :: real list)"
  by (induction xs ys rule: list_induct2) simp_all

lemma length_np_scale: "length (np_scale c v) = length v"
  by (simp add: np_scale_def)

lemma np_scale_zero_add:
  "length xs = length ys \<Longrightarrow> map2 (\<lambda>x y. x + y) xs (np_scale 0 ys) = xs"
  by (simp add: np_scale_def map2_add_zeros)

lemma np_scale_np_scale: "np_scale d (np_scale c v) = np_scale (d * c) v"
  by (simp add: np_scale_def)

lemma np_scale_add:
  "length xs = length ys \<Longrightarrow>
     map2 (\<lambda>x y. x + y) xs (np_scale c ys) = map2 (\<lambda>x y. x + c * y) xs ys"
  by (simp add: np_scale_def map2_add_scaled)

lemma SARSALambdaContinuous_update_zero:
  assumes upd: "SARSALambdaContinuous_update drawn self state action reward next_state
                  absorbing = Inr self'"
    and a: "fst (call (alpha self) state action None None) = 0"
  shows "Q self' = Q self"
proof -
  define e' where "e' = map2 (\<lambda>x y. x + y)
     (np_scale (gamma (mdp_info self) * SARSALambdaContinuous.p_lambda self)
        (SARSALambdaContinuous.e self))
     (diff (Q self) (SARSALambdaContinuous.phi self state) action)"
  from upd a have len: "length (weights (Q self)) = length e'"
    and q: "Q self' = (Q self)\<lparr>weights := map2 (\<lambda>x y. x + y) (weights (Q self))
                                          (np_scale 0 e')\<rparr>"
    by (auto simp: SARSALambdaContinuous_update_Inr_iff Let_def e'_def)
  from len have "map2 (\<lambda>x y. x + y) (weights (Q self)) (np_scale 0 e') = weights (Q self)"
    by (rule np_scale_zero_add)
  with q show ?thesis by simp
qed

lemma RLearning_update_Q:
  assumes "RLearning_update self state action reward next_state absorbing = Inr self'"
  shows "Q self' = (Q self)[state := (Q self ! state)[action :=
           Q self ! state ! action + fst (call (alpha self) state action None None) *
           (reward - p_rho self +
              (if absorbing then 0 else Max (set (Q self ! next_state))) -
            Q self ! state ! action)]]"
  using assms by (auto simp: RLearning_update_Inr_iff Let_def split: if_splits)

lemma RQLearning_update_not_absorbing_zero:
  assumes "RQLearning_update_not_absorbing drawn 0 self state action next_state = Inr self'"
    and "delta self \<noteq> None"
  shows "Q_tilde self' = Q_tilde self"
proof -
  from assms(1) obtain q_next self2 beta_value self3 where
    nq: "RQLearning_next_q drawn self next_state = Inr (q_next, self2)" and
    bv: "RQLearning_beta_value 0 q_next self2 state action = Inr (beta_value, self3)" and
    st: "state < length (Q_tilde self3)" "action < length (Q_tilde self3 ! state)" and
    res: "self' = self3\<lparr>Q_tilde := (Q_tilde self3)[state := (Q_tilde self3 ! state)[action :=
            Q_tilde self3 ! state ! action +
            beta_value * (q_next - Q_tilde self3 ! state ! action)]]\<rparr>"
    unfolding RQLearning_update_not_absorbing_def
    by (auto simp: and_then_Inr_iff getitem_Inr_iff setitem_Inr_iff)
  from nq have s2: "Q_tilde self2 = Q_tilde self" "delta self2 = delta self"
    by (auto dest!: RQLearning_next_q_Inr split: if_splits)
  from bv s2 assms(2) have "beta_value = 0" and s3: "Q_tilde self3 = Q_tilde self2"
    by (auto simp: RQLearning_beta_value_def split: option.splits prod.splits)
  with res s2 show ?thesis by simp
qed

lemma RQLearning_update_zero:
  assumes upd: "RQLearning_update drawn self state action reward next_state absorbing
                  = Inr self'"
    and a: "fst (call (alpha self) state action (Some reward) None) = 0"
  shows "R_tilde self' = R_tilde self"
    and "absorbing \<or> delta self \<noteq> None \<Longrightarrow> Q_tilde self' = Q_tilde self"
    and "absorbing \<or> delta self \<noteq> None \<Longrightarrow> combined self \<Longrightarrow> Q self' = Q self"
proof -
  from RQLearning_update_Inr [OF upd] obtain v_r v_q where
    rng: "state < length (R_tilde self)" "action < length (R_tilde self ! state)"
         "state < length (Q_tilde self)" "action < length (Q_tilde self ! state)"
         "state < length (Q self)" "action < length (Q self ! state)" and
    R0: "R_tilde self' = (R_tilde self)[state := (R_tilde self ! state)[action := v_r]]" and
    T: "Q_tilde self' = (Q_tilde self)[state := (Q_tilde self ! state)[action := v_q]]" and
    C0: "Q self' = (Q self)[state := (Q self ! state)[action :=
          v_r + gamma (mdp_info self) * v_q]]" and
    vr: "v_r = R_tilde self ! state ! action +
           fst (call (alpha self) state action (Some reward) None) *
           (reward - R_tilde self ! state ! action)" and
    v: "absorbing \<longrightarrow> v_q = Q_tilde self ! state ! action"
    by blast
  from vr a have vr0: "v_r = R_tilde self ! state ! action" by simp
  from R0 vr0 have R: "R_tilde self' = R_tilde self" by simp
  from C0 vr0 have C: "Q self' = (Q self)[state := (Q self ! state)[action :=
          R_tilde self ! state ! action + gamma (mdp_info self) * v_q]]" by simp
  show "R_tilde self' = R_tilde self" by (rule R)
  have qt: "Q_tilde self' = Q_tilde self" if "absorbing \<or> delta self \<noteq> None"
  proof (cases absorbing)
    case True
    with v T show ?thesis by simp
  next
    case False
    with that have d: "delta self \<noteq> None" by simp
    obtain alpha' where c: "call (alpha self) state action (Some reward) None = (0, alpha')"
      using a by (cases "call (alpha self) state action (Some reward) None") simp
    define self1 where "self1 = self\<lparr>alpha := alpha',
      R_tilde := (R_tilde self)[state := (R_tilde self ! state)[action :=
        R_tilde self ! state ! action]]\<rparr>"
    from upd c False obtain self4 where
      blk: "RQLearning_update_not_absorbing drawn 0 self1 state action next_state = Inr self4"
      and res: "self' = self4\<lparr>Q := (Q self4)[state := (Q self4 ! state)[action :=
            R_tilde self4 ! state ! action +
            gamma (mdp_info self4) * Q_tilde self4 ! state ! action]]\<rparr>"
      unfolding RQLearning_update_def self1_def
      by (auto simp: and_then_Inr_iff getitem_Inr_iff setitem_Inr_iff Let_def)
    from d have "delta self1 \<noteq> None" by (simp add: self1_def)
    from RQLearning_update_not_absorbing_zero [OF blk this]
    show ?thesis by (simp add: res self1_def)
  qed
  then show "absorbing \<or> delta self \<noteq> None \<Longrightarrow> Q_tilde self' = Q_tilde self" .
  assume h: "absorbing \<or> delta self \<noteq> None" and inv: "combined self"
  from qt [OF h] T rng have "v_q = Q_tilde self ! state ! action"
    by (metis length_list_update nth_list_update_eq)
  then have vq: "v_q = Q_tilde self ! state ! action" .
  from inv rng have "R_tilde self ! state ! action + gamma (mdp_info self) * v_q =
      Q self ! state ! action"
    unfolding vq by (simp add: combined_def)
  with C have "Q self' = (Q self)[state := (Q self ! state)[action :=
      Q self ! state ! action]]"
    by (simp only:)
  then show "Q self' = Q self" by simp
qed


lemma TrueOnlineSARSALambda_update_zero:
  assumes upd: "TrueOnlineSARSALambda_update get_action_features drawn self state action
                  reward next_state absorbing = Inr self'"
    and a: "fst (call (alpha self) state action None None) = 0"
  shows "weights (Q self') =
         map2 (\<lambda>w x. w +
             (reward + gamma (mdp_info self) *
                (if absorbing then 0 else predict (Q self) (phi self next_state) drawn) -
              (case p_q_old self of None \<Rightarrow> predict (Q self) (phi self state) action
               | Some q \<Rightarrow> q)) *
             (gamma (mdp_info self) * p_lambda self * x))
           (weights (Q self)) (e self)"
proof -
  define f where "f = get_action_features (phi self state) action
    (action_space_n (mdp_info self))"
  define d where "d = reward + gamma (mdp_info self) *
      (if absorbing then 0 else predict (Q self) (phi self next_state) drawn) -
      (case p_q_old self of None \<Rightarrow> predict (Q self) (phi self state) action | Some q \<Rightarrow> q)"
  define c where "c = gamma (mdp_info self) * p_lambda self"
  from upd a have len: "length (e self) = length f" "length (weights (Q self)) = length (e self)"
    and w: "weights (Q self') = map2 (\<lambda>x y. x + y) (weights (Q self))
       (map2 (\<lambda>x y. x + y)
          (np_scale d (map2 (\<lambda>x y. x + y) (np_scale c (e self)) (np_scale 0 f)))
          (np_scale 0 f))"
    by (auto simp: TrueOnlineSARSALambda_update_Inr_iff Let_def f_def d_def c_def)
  have e': "map2 (\<lambda>x y. x + y) (np_scale c (e self)) (np_scale 0 f) = np_scale c (e self)"
    using len by (intro np_scale_zero_add) (simp add: length_np_scale)
  have "map2 (\<lambda>x y. x + y) (np_scale d (np_scale c (e self))) (np_scale 0 f) =
        np_scale d (np_scale c (e self))"
    using len by (intro np_scale_zero_add) (simp add: length_np_scale)
  with w have "weights (Q self') = map2 (\<lambda>x y. x + y) (weights (Q self))
      (np_scale (d * c) (e self))"
    unfolding e' by (simp only: np_scale_np_scale)
  also have "\<dots> = map2 (\<lambda>x y. x + (d * c) * y) (weights (Q self)) (e self)"
    using len by (intro np_scale_add) simp
  finally show ?thesis
    by (simp add: d_def c_def mult.assoc)
qed

text \<open>
  C1, as the code has it. If the learning rate returns 0 at the call, a completed \<^verbatim>\<open>fit\<close>
  leaves the Q store as it was (in SARSA(lambda) continuous: the regressor and its weights)
  for Q-Learning, Double Q-Learning, Weighted Q-Learning, SARSA, SARSA(lambda) discrete and
  continuous, Expected SARSA and R-Learning. Speedy Q-Learning writes \<open>Q(s, a) = q_cur +
  (target_cur - target_old)\<close> then. True Online SARSA(lambda) moves every weight by the TD
  error times \<open>gamma * lambda\<close> times the trace. RQ-Learning leaves \<open>R_tilde\<close>; when the
  transition is absorbing or the rate of \<open>Q_tilde\<close> comes from \<open>delta\<close> it leaves \<open>Q_tilde\<close>
  too, and \<open>Q\<close> if the three tables were combined before.
\<close>

theorem zero_learning_rate:
  "(fst (call (alpha self) state action None None) = 0 \<and>
    fit QLearning_update self [(state, action, reward, next_state, absorbing)] = Inr self' \<longrightarrow>
      Q self' = Q self) \<and>
   (fst (call (alpha self_d ! (if u < 1 / 2 then 0 else 1)) state action None None) = 0 \<and>
    fit (DoubleQLearning_update u k) self_d [(state, action, reward, next_state, absorbing)]
      = Inr self_d' \<longrightarrow>
      Q self_d' = Q self_d) \<and>
   (fst (call (alpha self_w) state action None None) = 0 \<and>
    fit (WeightedQLearning_update samples drawn) self_w
      [(state, action, reward, next_state, absorbing)] = Inr self_w' \<longrightarrow>
      Q self_w' = Q self_w) \<and>
   (fst (call (alpha self_a) state action None None) = 0 \<and>
    fit (SARSA_update drawn) self_a [(state, action, reward, next_state, absorbing)]
      = Inr self_a' \<longrightarrow>
      Q self_a' = Q self_a) \<and>
   (fst (call (alpha self_l) state action None None) = 0 \<and>
    fit (SARSALambdaDiscrete_update drawn) self_l
      [(state, action, reward, next_state, absorbing)] = Inr self_l' \<longrightarrow>
      Q self_l' = Q self_l) \<and>
   (fst (call (alpha self_c) state_c action None None) = 0 \<and>
    fit (SARSALambdaContinuous_update drawn) self_c
      [(state_c, action, reward, next_state_c, absorbing)] = Inr self_c' \<longrightarrow>
      Q self_c' = Q self_c) \<and>
   (fst (call (alpha self_e) state action None None) = 0 \<and>
    fit (ExpectedSARSA_update probabilities) self_e
      [(state, action, reward, next_state, absorbing)] = Inr self_e' \<longrightarrow>
      Q self_e' = Q self_e) \<and>
   (fst (call (alpha self_r) state action None None) = 0 \<and>
    fit RLearning_update self_r [(state, action, reward, next_state, absorbing)]
      = Inr self_r' \<longrightarrow>
      Q self_r' = Q self_r) \<and>
   (fst (call (alpha self_s) state action None None) = 0 \<and>
    fit SpeedyQLearning_update self_s [(state, action, reward, next_state, absorbing)]
      = Inr self_s' \<longrightarrow>
      Q self_s' = (Q self_s)[state := (Q self_s ! state)[action :=
        Q self_s ! state ! action +
        (reward + gamma (mdp_info self_s) *
           (if absorbing then 0 else Max (set (Q self_s ! next_state))) -
         (reward + gamma (mdp_info self_s) *
           (if absorbing then 0 else Max (set (old_q self_s ! next_state)))))]]) \<and>
   (fst (call (alpha self_t) state_c action None None) = 0 \<and>
    fit (TrueOnlineSARSALambda_update get_action_features drawn) self_t
      [(state_c, action, reward, next_state_c, absorbing)] = Inr self_t' \<longrightarrow>
      weights (Q self_t') =
        map2 (\<lambda>w x. w +
            (reward + gamma (mdp_info self_t) *
               (if absorbing then 0
                else predict (Q self_t) (phi self_t next_state_c) drawn) -
             (case p_q_old self_t of
                None \<Rightarrow> predict (Q self_t) (phi self_t state_c) action
              | Some q \<Rightarrow> q)) *
            (gamma (mdp_info self_t) * p_lambda self_t * x))
          (weights (Q self_t)) (e self_t)) \<and>
   (fst (call (alpha self_rq) state action (Some reward) None) = 0 \<and>
    fit (RQLearning_update drawn) self_rq [(state, action, reward, next_state, absorbing)]
      = Inr self_rq' \<longrightarrow>
      R_tilde self_rq' = R_tilde self_rq \<and>
      (absorbing \<or> delta self_rq \<noteq> None \<longrightarrow>
         Q_tilde self_rq' = Q_tilde self_rq \<and>
         (combined self_rq \<longrightarrow> Q self_rq' = Q self_rq)))"
proof (intro conjI impI)
  assume "fst (call (alpha self) state action None None) = 0 \<and>
    fit QLearning_update self [(state, action, reward, next_state, absorbing)] = Inr self'"
  then show "Q self' = Q self"
    by (auto simp: fit_Inr_iff QLearning_update_Inr_iff)
next
  assume "fst (call (alpha self_d ! (if u < 1 / 2 then 0 else 1)) state action None None) = 0 \<and>
    fit (DoubleQLearning_update u k) self_d [(state, action, reward, next_state, absorbing)]
      = Inr self_d'"
  then show "Q self_d' = Q self_d"
    by (auto simp: fit_Inr_iff DoubleQLearning_update_Inr_iff Let_def split: if_splits)
next
  assume h: "fst (call (alpha self_w) state action None None) = 0 \<and>
    fit (WeightedQLearning_update samples drawn) self_w
      [(state, action, reward, next_state, absorbing)] = Inr self_w'"
  then have "WeightedQLearning_update samples drawn self_w state action reward next_state
      absorbing = Inr self_w'"
    by (simp add: fit_Inr_iff)
  from WeightedQLearning_update_Q [OF this] h show "Q self_w' = Q self_w"
    by auto
next
  assume "fst (call (alpha self_a) state action None None) = 0 \<and>
    fit (SARSA_update drawn) self_a [(state, action, reward, next_state, absorbing)]
      = Inr self_a'"
  then show "Q self_a' = Q self_a"
    by (auto simp: fit_Inr_iff SARSA_update_Inr_iff)
next
  assume "fst (call (alpha self_l) state action None None) = 0 \<and>
    fit (SARSALambdaDiscrete_update drawn) self_l
      [(state, action, reward, next_state, absorbing)] = Inr self_l'"
  then show "Q self_l' = Q self_l"
    by (auto simp: fit_Inr_iff SARSALambdaDiscrete_update_Inr_iff table_iadd_zero)
next
  assume "fst (call (alpha self_c) state_c action None None) = 0 \<and>
    fit (SARSALambdaContinuous_update drawn) self_c
      [(state_c, action, reward, next_state_c, absorbing)] = Inr self_c'"
  then show "Q self_c' = Q self_c"
    by (auto simp: fit_Inr_iff dest: SARSALambdaContinuous_update_zero)
next
  assume "fst (call (alpha self_e) state action None None) = 0 \<and>
    fit (ExpectedSARSA_update probabilities) self_e
      [(state, action, reward, next_state, absorbing)] = Inr self_e'"
  then show "Q self_e' = Q self_e"
    by (auto simp: fit_Inr_iff ExpectedSARSA_update_Inr_iff)
next
  assume "fst (call (alpha self_r) state action None None) = 0 \<and>
    fit RLearning_update self_r [(state, action, reward, next_state, absorbing)]
      = Inr self_r'"
  then show "Q self_r' = Q self_r"
    by (auto simp: fit_Inr_iff dest!: RLearning_update_Q)
next
  assume "fst (call (alpha self_s) state action None None) = 0 \<and>
    fit SpeedyQLearning_update self_s [(state, action, reward, next_state, absorbing)]
      = Inr self_s'"
  then show "Q self_s' = (Q self_s)[state := (Q self_s ! state)[action :=
        Q self_s ! state ! action +
        (reward + gamma (mdp_info self_s) *
           (if absorbing then 0 else Max (set (Q self_s ! next_state))) -
         (reward + gamma (mdp_info self_s) *
           (if absorbing then 0 else Max (set (old_q self_s ! next_state)))))]]"
    by (auto simp: fit_Inr_iff SpeedyQLearning_update_Inr_iff)
next
  assume h: "fst (call (alpha self_t) state_c action None None) = 0 \<and>
    fit (TrueOnlineSARSALambda_update get_action_features drawn) self_t
      [(state_c, action, reward, next_state_c, absorbing)] = Inr self_t'"
  then have "TrueOnlineSARSALambda_update get_action_features drawn self_t state_c action
      reward next_state_c absorbing = Inr self_t'"
    by (simp add: fit_Inr_iff)
  from TrueOnlineSARSALambda_update_zero [OF this] h
  show "weights (Q self_t') =
        map2 (\<lambda>w x. w +
            (reward + gamma (mdp_info self_t) *
               (if absorbing then 0
                else predict (Q self_t) (phi self_t next_state_c) drawn) -
             (case p_q_old self_t of
                None \<Rightarrow> predict (Q self_t) (phi self_t state_c) action
              | Some q \<Rightarrow> q)) *
            (gamma (mdp_info self_t) * p_lambda self_t * x))
          (weights (Q self_t)) (e self_t)"
    by simp
next
  assume h: "fst (call (alpha self_rq) state action (Some reward) None) = 0 \<and>
    fit (RQLearning_update drawn) self_rq [(state, action, reward, next_state, absorbing)]
      = Inr self_rq'"
  then have u: "RQLearning_update drawn self_rq state action reward next_state absorbing
      = Inr self_rq'"
    by (simp add: fit_Inr_iff)
  from h have a: "fst (call (alpha self_rq) state action (Some reward) None) = 0" by simp
  show "R_tilde self_rq' = R_tilde self_rq"
    by (rule RQLearning_update_zero(1) [OF u a])
  show "Q_tilde self_rq' = Q_tilde self_rq" if "absorbing \<or> delta self_rq \<noteq> None"
    by (rule RQLearning_update_zero(2) [OF u a that])
  show "Q self_rq' = Q self_rq" if "absorbing \<or> delta self_rq \<noteq> None" "combined self_rq"
    by (rule RQLearning_update_zero(3) [OF u a that])
qed


text \<open>
  Every rule with the learning rate 0, on the transition from state 0 by action 0 with
  reward 1 to state 1, which is not absorbing, and RQ-Learning on the absorbing one too.
\<close>

theorem zero_learning_rate_witness:
  "(\<exists>self'. fit QLearning_update (example_TD (constant_parameter 0)) [(0, 0, 1, 1, False)]
      = Inr self' \<and> Q self' = [[2, 0], [4, 1]]) \<and>
   (\<exists>self'. fit (DoubleQLearning_update (1 / 4) 0)
      (example_DoubleQLearning (constant_parameter 0)) [(0, 0, 1, 1, False)]
      = Inr self' \<and> Q self' = [[[2, 0], [4, 1]], [[0, 0], [5, 7]]]) \<and>
   (\<exists>self'. fit (WeightedQLearning_update [[1, 0], [0, 1]] 0)
      (example_WeightedQLearning (constant_parameter 0)) [(0, 0, 1, 1, False)]
      = Inr self' \<and> Q self' = [[2, 0], [4, 1]]) \<and>
   (\<exists>self'. fit (SARSA_update 0) (example_TD (constant_parameter 0)) [(0, 0, 1, 1, False)]
      = Inr self' \<and> Q self' = [[2, 0], [4, 1]]) \<and>
   (\<exists>self'. fit (SARSALambdaDiscrete_update 0)
      (example_SARSALambdaDiscrete (constant_parameter 0)) [(0, 0, 1, 1, False)]
      = Inr self' \<and> Q self' = [[2, 0], [4, 1]]) \<and>
   (\<exists>self'. fit (SARSALambdaContinuous_update 0)
      (example_SARSALambdaContinuous (constant_parameter 0)) [(0, 0, 1, 1, False)]
      = Inr self' \<and> weights (Q self') = [3]) \<and>
   (\<exists>self'. fit (ExpectedSARSA_update [1, 0]) (example_TD (constant_parameter 0))
      [(0, 0, 1, 1, False)] = Inr self' \<and> Q self' = [[2, 0], [4, 1]]) \<and>
   (\<exists>self'. fit RLearning_update (example_RLearning (constant_parameter 0))
      [(0, 0, 1, 1, False)] = Inr self' \<and> Q self' = [[2, 0], [4, 1]]) \<and>
   (\<exists>self'. fit SpeedyQLearning_update (example_SpeedyQLearning (constant_parameter 0))
      [(0, 0, 1, 1, False)] = Inr self' \<and> Q self' = [[5 / 2, 0], [4, 1]]) \<and>
   (\<exists>self'. fit (TrueOnlineSARSALambda_update example_action_features 0)
      (example_TrueOnlineSARSALambda (constant_parameter 0)) [(0, 0, 1, 1, False)]
      = Inr self' \<and> weights (Q self') = [23 / 8]) \<and>
   (\<exists>self'. fit (RQLearning_update 0) (example_RQLearning (constant_parameter 0))
      [(0, 0, 1, 1, False)] = Inr self' \<and> R_tilde self' = [[1], [0]]) \<and>
   (\<exists>self'. fit (RQLearning_update 0) (example_RQLearning (constant_parameter 0))
      [(0, 0, 1, 1, True)] = Inr self' \<and> R_tilde self' = [[1], [0]] \<and>
      Q_tilde self' = [[1], [0]] \<and> Q self' = [[3 / 2], [0]])"
proof -
  obtain c1 where h1: "fit QLearning_update (example_TD (constant_parameter 0))
      [(0, 0, 1, 1, False)] = Inr c1"
    by (simp add: example_defs table_defs fit_def parse_def QLearning_update_def)
  obtain c2 where h2: "fit (DoubleQLearning_update (1 / 4) 0)
      (example_DoubleQLearning (constant_parameter 0)) [(0, 0, 1, 1, False)] = Inr c2"
    by (simp add: example_defs table_defs fit_def parse_def DoubleQLearning_update_def
        argwhere_eq_def np_random_choice_def)
  obtain c3 where h3: "fit (WeightedQLearning_update [[1, 0], [0, 1]] 0)
      (example_WeightedQLearning (constant_parameter 0)) [(0, 0, 1, 1, False)] = Inr c3"
    by (simp add: example_defs table_defs fit_def parse_def WeightedQLearning_update_def
        WeightedQLearning_next_q_def np_argmax_def np_dot_def Let_def
        WeightedQLearning_update_statistics_def WeightedQLearning_update_sigma_def)
  obtain c4 where h4: "fit (SARSA_update 0) (example_TD (constant_parameter 0))
      [(0, 0, 1, 1, False)] = Inr c4"
    by (simp add: example_defs table_defs fit_def parse_def SARSA_update_def)
  obtain c5 where h5: "fit (SARSALambdaDiscrete_update 0)
      (example_SARSALambdaDiscrete (constant_parameter 0)) [(0, 0, 1, 1, False)] = Inr c5"
    by (simp add: example_defs table_defs fit_def parse_def SARSALambdaDiscrete_update_def
        EligibilityTrace_update_def table_iadd_scaled_def)
  obtain c6 where h6: "fit (SARSALambdaContinuous_update 0)
      (example_SARSALambdaContinuous (constant_parameter 0)) [(0, 0, 1, 1, False)] = Inr c6"
    by (simp add: example_defs fit_def parse_def SARSALambdaContinuous_update_def predict_def
        diff_def np_add_def np_scale_def get_weights_def set_weights_def Let_def)
  obtain c7 where h7: "fit (ExpectedSARSA_update [1, 0]) (example_TD (constant_parameter 0))
      [(0, 0, 1, 1, False)] = Inr c7"
    by (simp add: example_defs table_defs fit_def parse_def ExpectedSARSA_update_def
        np_dot_def)
  obtain c8 where h8: "fit RLearning_update (example_RLearning (constant_parameter 0))
      [(0, 0, 1, 1, False)] = Inr c8"
    by (simp add: example_defs table_defs fit_def parse_def RLearning_update_def)
  obtain c9 where h9: "fit SpeedyQLearning_update
      (example_SpeedyQLearning (constant_parameter 0)) [(0, 0, 1, 1, False)] = Inr c9"
    by (simp add: example_defs table_defs fit_def parse_def SpeedyQLearning_update_def)
  obtain c10 where h10: "fit (TrueOnlineSARSALambda_update example_action_features 0)
      (example_TrueOnlineSARSALambda (constant_parameter 0)) [(0, 0, 1, 1, False)] = Inr c10"
    by (simp add: example_defs fit_def parse_def TrueOnlineSARSALambda_update_def predict_def
        np_dot_def np_add_def np_scale_def get_weights_def set_weights_def Let_def)
  obtain c11 where h11: "fit (RQLearning_update 0) (example_RQLearning (constant_parameter 0))
      [(0, 0, 1, 1, False)] = Inr c11"
    by (simp add: example_defs table_defs fit_def parse_def RQLearning_update_def
        RQLearning_update_not_absorbing_def RQLearning_next_q_def RQLearning_beta_value_def)
  obtain c12 where h12: "fit (RQLearning_update 0) (example_RQLearning (constant_parameter 0))
      [(0, 0, 1, 1, True)] = Inr c12"
    by (simp add: example_defs table_defs fit_def parse_def RQLearning_update_def)
  have inv: "combined (example_RQLearning (constant_parameter 0))"
    by (simp add: combined_def example_defs less_Suc_eq numeral_2_eq_2)
  note t1 = zero_learning_rate
    [where self = "example_TD (constant_parameter 0)" and self' = c1
       and u = "1 / 4" and k = 0
       and self_d = "example_DoubleQLearning (constant_parameter 0)" and self_d' = c2
       and samples = "[[1, 0], [0, 1]]" and drawn = 0
       and self_w = "example_WeightedQLearning (constant_parameter 0)" and self_w' = c3
       and self_a = "example_TD (constant_parameter 0)" and self_a' = c4
       and self_l = "example_SARSALambdaDiscrete (constant_parameter 0)" and self_l' = c5
       and self_c = "example_SARSALambdaContinuous (constant_parameter 0)" and self_c' = c6
       and state_c = 0 and next_state_c = 1
       and probabilities = "[1, 0]" and self_e = "example_TD (constant_parameter 0)"
       and self_e' = c7
       and self_r = "example_RLearning (constant_parameter 0)" and self_r' = c8
       and self_s = "example_SpeedyQLearning (constant_parameter 0)" and self_s' = c9
       and get_action_features = example_action_features
       and self_t = "example_TrueOnlineSARSALambda (constant_parameter 0)" and self_t' = c10
       and self_rq = "example_RQLearning (constant_parameter 0)" and self_rq' = c11
       and state = 0 and action = 0 and next_state = 1 and reward = 1 and absorbing = False]
  note t2 = zero_learning_rate
    [where self_rq = "example_RQLearning (constant_parameter 0)" and self_rq' = c12
       and drawn = 0
       and state = 0 and action = 0 and next_state = 1 and reward = 1 and absorbing = True,
     THEN conjunct2, THEN conjunct2, THEN conjunct2, THEN conjunct2, THEN conjunct2,
     THEN conjunct2, THEN conjunct2, THEN conjunct2, THEN conjunct2, THEN conjunct2]
  have a: "Q c1 = [[2, 0], [4, 1]]" "Q c2 = [[[2, 0], [4, 1]], [[0, 0], [5, 7]]]"
    "Q c3 = [[2, 0], [4, 1]]" "Q c4 = [[2, 0], [4, 1]]" "Q c5 = [[2, 0], [4, 1]]"
    "weights (Q c6) = [3]" "Q c7 = [[2, 0], [4, 1]]" "Q c8 = [[2, 0], [4, 1]]"
    "Q c9 = [[5 / 2, 0], [4, 1]]" "weights (Q c10) = [23 / 8]" "R_tilde c11 = [[1], [0]]"
    using t1 h1 h2 h3 h4 h5 h6 h7 h8 h9 h10 h11
    by (simp_all add: example_defs predict_def)
  have b: "R_tilde c12 = [[1], [0]]" "Q_tilde c12 = [[1], [0]]" "Q c12 = [[3 / 2], [0]]"
    using t2 h12 inv
    by (simp_all add: example_defs)
  from a b h1 h2 h3 h4 h5 h6 h7 h8 h9 h10 h11 h12 show ?thesis
    by simp
qed


text \<open>
  C1, as the specification has it, fails for Speedy Q-Learning. The constructed agent, with
  one state, one action and \<open>gamma = 1/2\<close>, has a learning rate that returns 1 and then 0.
  The first \<^verbatim>\<open>fit\<close>, with reward 1, writes \<open>Q(0, 0) = 1\<close> and keeps the zero table as
  the previous store. In the second \<^verbatim>\<open>fit\<close>, with reward 0, the learning rate returns 0
  and \<open>Q(0, 0)\<close> becomes \<open>1 + (target_cur - target_old) = 3/2\<close>.
\<close>

theorem zero_learning_rate_counterexample:
  "fit SpeedyQLearning_update
     (SpeedyQLearning_init \<lparr>mdp_size = (1, 1), gamma = 1 / 2, action_space_n = 1\<rparr>
        (sequence_parameter [1]))
     [(0, 0, 1, 0, False)] =
     Inr \<lparr>Q = [[1]], alpha = sequence_parameter [],
          mdp_info = \<lparr>mdp_size = (1, 1), gamma = 1 / 2, action_space_n = 1\<rparr>,
          next_action = None, old_q = [[0]]\<rparr> \<and>
   fst (call (sequence_parameter []) (0 :: nat) 0 None None) = 0 \<and>
   fit SpeedyQLearning_update
     \<lparr>Q = [[1]], alpha = sequence_parameter [],
      mdp_info = \<lparr>mdp_size = (1, 1), gamma = 1 / 2, action_space_n = 1\<rparr>,
      next_action = None, old_q = [[0]]\<rparr>
     [(0, 0, 0, 0, False)] =
     Inr \<lparr>Q = [[3 / 2]], alpha = sequence_parameter [],
          mdp_info = \<lparr>mdp_size = (1, 1), gamma = 1 / 2, action_space_n = 1\<rparr>,
          next_action = None, old_q = [[1]]\<rparr> \<and>
   [[3 / 2]] \<noteq> [[1 :: real]]"
  by (simp add: SpeedyQLearning_init_def Table_def fit_def parse_def
      SpeedyQLearning_update_def getitem_def setitem_def getrow_def Let_def)

text \<open>
  RQ-Learning with its own schedule \<open>beta\<close>: with the learning rate 0 an update of a
  transition that is not absorbing still moves \<open>Q_tilde\<close>, and \<open>Q\<close> with it.
\<close>

lemma RQLearning_rate_zero_moves_Q:
  "fst (call (alpha (example_RQLearning (constant_parameter 0))) 0 0 (Some 1) None) = 0 \<and>
   fit (RQLearning_update 0) (example_RQLearning (constant_parameter 0))
     [(0, 0, 1, 1, False)] =
     Inr \<lparr>Q = [[1], [0]], alpha = constant_parameter 0,
          mdp_info = \<lparr>mdp_size = (2, 1), gamma = 1 / 2, action_space_n = 1\<rparr>,
          next_action = None, off_policy = True, delta = None,
          beta = Some (constant_parameter 1), Q_tilde = [[0], [0]],
          R_tilde = [[1], [0]]\<rparr> \<and>
   Q (example_RQLearning (constant_parameter 0)) = [[3 / 2], [0]]"
  by (simp add: example_RQLearning_def fit_def parse_def RQLearning_update_def
      RQLearning_update_not_absorbing_def RQLearning_next_q_def RQLearning_beta_value_def
      getitem_def setitem_def getrow_def)

end
